theory Spec2Isabelle
  imports Main "HOL-Library.Char_ord" "HOL-Library.List_Lexorder" "HOL-Library.Sublist"
begin

section \<open>Values of the schema tree\<close>

text \<open>
  The program reads the provider schema with \<^verbatim>\<open>json.load\<close> and walks the resulting
  Python objects with \<^verbatim>\<open>dict.get\<close>. A schema value is therefore modelled as a JSON
  value: \<open>JNull\<close> is Python's \<^verbatim>\<open>None\<close>, an object is the list of its items in
  insertion order (a Python dict; its keys are pairwise different), a string is a list
  of characters read as the code points 0..255. Numbers with a fractional part are
  outside the model.
\<close>

datatype json =
    JNull
  | JBool bool
  | JInt int
  | JStr string
  | JArr "json list"
  | JObj "(string \<times> json) list"

text \<open>The exceptions the rendering code can raise.\<close>

datatype py_error =
    ValueError string
  | AttributeError
  | TypeError
  | IndexError

section \<open>The Python primitives the renderer uses\<close>

text \<open>\<^verbatim>\<open>d.get(k, default)\<close> on a dict.\<close>

definition dict_get :: "(string \<times> json) list \<Rightarrow> string \<Rightarrow> json \<Rightarrow> json" where
  "dict_get kvs k d = (case map_of kvs k of Some v \<Rightarrow> v | None \<Rightarrow> d)"

text \<open>\<^verbatim>\<open>sorted(d.items(), key=lambda x: x[0])\<close>: a stable sort on the key.\<close>

definition sorted_items :: "(string \<times> json) list \<Rightarrow> (string \<times> json) list" where
  "sorted_items kvs = sort_key fst kvs"

text \<open>Truth value of an object, as \<^verbatim>\<open>if x:\<close> and \<^verbatim>\<open>not x\<close> test it.\<close>

fun py_truthy :: "json \<Rightarrow> bool" where
  "py_truthy JNull = False"
| "py_truthy (JBool b) = b"
| "py_truthy (JInt i) = (i \<noteq> 0)"
| "py_truthy (JStr s) = (s \<noteq> [])"
| "py_truthy (JArr xs) = (xs \<noteq> [])"
| "py_truthy (JObj kvs) = (kvs \<noteq> [])"

text \<open>\<^verbatim>\<open>x == 0\<close>: true for the integer zero and for \<^verbatim>\<open>False\<close>.\<close>

fun py_eq_zero :: "json \<Rightarrow> bool" where
  "py_eq_zero (JInt i) = (i = 0)"
| "py_eq_zero (JBool b) = (\<not> b)"
| "py_eq_zero _ = False"

text \<open>\<^verbatim>\<open>x > 0\<close>: defined on integers and booleans, a TypeError on everything else.\<close>

fun py_gt_zero :: "json \<Rightarrow> py_error + bool" where
  "py_gt_zero (JInt i) = Inr (0 < i)"
| "py_gt_zero (JBool b) = Inr b"
| "py_gt_zero _ = Inl TypeError"

text \<open>\<^verbatim>\<open>range(x)\<close>, as the list of its indices.\<close>

fun py_range :: "json \<Rightarrow> py_error + nat list" where
  "py_range (JInt i) = Inr [0..<nat i]"
| "py_range (JBool b) = Inr [0..<(if b then 1 else 0)]"
| "py_range _ = Inl TypeError"

text \<open>\<^verbatim>\<open>s * n\<close> on a string: the empty string when \<open>n\<close> is not positive.\<close>

definition py_repeat :: "string \<Rightarrow> int \<Rightarrow> string" where
  "py_repeat s n = concat (replicate (nat n) s)"

text \<open>
  \<^verbatim>\<open>str.isspace\<close> on one character, for the code points below 256:
  tab to carriage return, the four separators 28..31, space, NEL and the no-break space.
\<close>

definition py_isspace :: "char \<Rightarrow> bool" where
  "py_isspace c = (let n = (of_char c :: nat) in
     (9 \<le> n \<and> n \<le> 13) \<or> (28 \<le> n \<and> n \<le> 32) \<or> n = 133 \<or> n = 160)"

definition py_strip :: "string \<Rightarrow> string" where
  "py_strip s = rev (dropWhile py_isspace (rev (dropWhile py_isspace s)))"

text \<open>\<^verbatim>\<open>s.split(c)\<close> for a one-character separator: never the empty list.\<close>

fun py_split :: "char \<Rightarrow> string \<Rightarrow> string list" where
  "py_split c [] = [[]]"
| "py_split c (x # xs) =
     (if x = c then [] # py_split c xs
      else (case py_split c xs of
              w # ws \<Rightarrow> (x # w) # ws
            | [] \<Rightarrow> [[x]]))"

text \<open>\<^verbatim>\<open>sep.join(xs)\<close>.\<close>

fun py_join :: "string \<Rightarrow> string list \<Rightarrow> string" where
  "py_join sep [] = []"
| "py_join sep [x] = x"
| "py_join sep (x # y # ys) = x @ sep @ py_join sep (y # ys)"

definition py_endswith :: "string \<Rightarrow> string \<Rightarrow> bool" where
  "py_endswith s suf =
     (length suf \<le> length s \<and> drop (length s - length suf) s = suf)"

definition py_startswith :: "string \<Rightarrow> string \<Rightarrow> bool" where
  "py_startswith s pre = (take (length pre) s = pre)"

text \<open>\<^verbatim>\<open>s[:-k]\<close> for a positive \<open>k\<close>.\<close>

definition py_drop_last :: "nat \<Rightarrow> string \<Rightarrow> string" where
  "py_drop_last k s = take (length s - k) s"

subsection \<open>Printing values\<close>

definition digit_char :: "nat \<Rightarrow> char" where
  "digit_char d = ''0123456789'' ! d"

fun str_nat :: "nat \<Rightarrow> string" where
  "str_nat n = (if n < 10 then [digit_char n] else str_nat (n div 10) @ [digit_char (n mod 10)])"

declare str_nat.simps [simp del]

text \<open>\<^verbatim>\<open>str(i)\<close> on an integer.\<close>

definition str_int :: "int \<Rightarrow> string" where
  "str_int i = (if i < 0 then CHR ''-'' # str_nat (nat (- i)) else str_nat (nat i))"

definition hex_char :: "nat \<Rightarrow> char" where
  "hex_char d = ''0123456789abcdef'' ! d"

definition hex2 :: "char \<Rightarrow> string" where
  "hex2 c = [hex_char ((of_char c :: nat) div 16), hex_char ((of_char c :: nat) mod 16)]"

text \<open>
  \<^verbatim>\<open>repr(s)\<close> on a string: single quotes unless the string holds a single quote and
  no double quote; the quote and the backslash are escaped, tab, newline and carriage
  return have their letter, and the other characters that are not printable are written
  \<^verbatim>\<open>\xhh\<close>.
\<close>

definition repr_quote :: "string \<Rightarrow> char" where
  "repr_quote s = (if CHR 0x27 \<in> set s \<and> CHR 0x22 \<notin> set s then CHR 0x22 else CHR 0x27)"

definition repr_char :: "char \<Rightarrow> char \<Rightarrow> string" where
  "repr_char q c = (let n = (of_char c :: nat) in
     if c = q \<or> c = CHR 0x5C then [CHR 0x5C, c]
     else if n = 9 then [CHR 0x5C, CHR ''t'']
     else if n = 10 then [CHR 0x5C, CHR ''n'']
     else if n = 13 then [CHR 0x5C, CHR ''r'']
     else if n < 32 \<or> n = 127 then [CHR 0x5C, CHR ''x''] @ hex2 c
     else if n < 127 then [c]
     else if n \<le> 160 \<or> n = 173 then [CHR 0x5C, CHR ''x''] @ hex2 c
     else [c])"

definition repr_str :: "string \<Rightarrow> string" where
  "repr_str s = (let q = repr_quote s in [q] @ concat (map (repr_char q) s) @ [q])"

text \<open>\<^verbatim>\<open>repr(x)\<close> on a value.\<close>

fun py_repr :: "json \<Rightarrow> string" where
  "py_repr JNull = ''None''"
| "py_repr (JBool b) = (if b then ''True'' else ''False'')"
| "py_repr (JInt i) = str_int i"
| "py_repr (JStr s) = repr_str s"
| "py_repr (JArr xs) = ''['' @ py_join '', '' (map py_repr xs) @ '']''"
| "py_repr (JObj kvs) =
     ''{'' @ py_join '', '' (map (\<lambda>(k, v). repr_str k @ '': '' @ py_repr v) kvs) @ ''}''"

text \<open>\<^verbatim>\<open>str(x)\<close>, which is what an f-string field prints.\<close>

fun py_str :: "json \<Rightarrow> string" where
  "py_str (JStr s) = s"
| "py_str v = py_repr v"

text \<open>
  \<^verbatim>\<open>json.dumps(x)\<close> with its default options: ASCII only, \<^verbatim>\<open>", "\<close> between items
  and \<^verbatim>\<open>": "\<close> after a key.
\<close>

definition json_char :: "char \<Rightarrow> string" where
  "json_char c = (let n = (of_char c :: nat) in
     if c = CHR 0x22 then [CHR 0x5C, CHR 0x22]
     else if c = CHR 0x5C then [CHR 0x5C, CHR 0x5C]
     else if n = 10 then [CHR 0x5C, CHR ''n'']
     else if n = 13 then [CHR 0x5C, CHR ''r'']
     else if n = 9 then [CHR 0x5C, CHR ''t'']
     else if n = 8 then [CHR 0x5C, CHR ''b'']
     else if n = 12 then [CHR 0x5C, CHR ''f'']
     else if n < 32 \<or> 126 < n then [CHR 0x5C, CHR ''u'', CHR ''0'', CHR ''0''] @ hex2 c
     else [c])"

definition json_string :: "string \<Rightarrow> string" where
  "json_string s = [CHR 0x22] @ concat (map json_char s) @ [CHR 0x22]"

fun json_dumps :: "json \<Rightarrow> string" where
  "json_dumps JNull = ''null''"
| "json_dumps (JBool b) = (if b then ''true'' else ''false'')"
| "json_dumps (JInt i) = str_int i"
| "json_dumps (JStr s) = json_string s"
| "json_dumps (JArr xs) = ''['' @ py_join '', '' (map json_dumps xs) @ '']''"
| "json_dumps (JObj kvs) =
     ''{'' @ py_join '', '' (map (\<lambda>(k, v). json_string k @ '': '' @ json_dumps v) kvs) @ ''}''"

section \<open>The parser object\<close>

text \<open>
  \<^verbatim>\<open>TerraformSchemaParser\<close> after \<^verbatim>\<open>_load_schema\<close>: the two dicts of the provider,
  from entry name to entry schema.
\<close>

record parser =
  resources :: "(string \<times> json) list"
  data_sources :: "(string \<times> json) list"

text \<open>\<^verbatim>\<open>get_schema_block\<close>; \<open>JNull\<close> is the \<^verbatim>\<open>None\<close> of an unknown name.\<close>

definition entry_block :: "json \<Rightarrow> py_error + json" where
  "entry_block entry =
     (case entry of
        JObj kvs \<Rightarrow> Inr (dict_get kvs ''block'' (JObj []))
      | _ \<Rightarrow> Inl AttributeError)"

definition get_schema_block :: "parser \<Rightarrow> string \<Rightarrow> py_error + json" where
  "get_schema_block p name =
     (case map_of (resources p) name of
        Some entry \<Rightarrow> entry_block entry
      | None \<Rightarrow>
          (case map_of (data_sources p) name of
             Some entry \<Rightarrow> entry_block entry
           | None \<Rightarrow> Inr JNull))"

section \<open>Type signatures and placeholders\<close>

text \<open>
  \<^verbatim>\<open>_parse_type\<close>. Indexing a list that is too short raises IndexError:
  \<^verbatim>\<open>type_[0]\<close> on the empty list, \<^verbatim>\<open>type_[1]\<close> on a one-element list tagged
  list, set or map.
\<close>

fun parse_type :: "json \<Rightarrow> py_error + string" where
  "parse_type (JStr s) = Inr s"
| "parse_type (JArr []) = Inl IndexError"
| "parse_type (JArr (t # ts)) =
     (if t = JStr ''list'' \<or> t = JStr ''set'' \<or> t = JStr ''map'' then
        (case ts of
           [] \<Rightarrow> Inl IndexError
         | e # _ \<Rightarrow>
             (case parse_type e of
                Inl err \<Rightarrow> Inl err
              | Inr sig \<Rightarrow> Inr (py_str t @ ''('' @ sig @ '')'')))
      else if t = JStr ''object'' then Inr ''object({...})''
      else if t = JStr ''tuple'' then Inr ''tuple([...])''
      else Inr ''unknown'')"
| "parse_type _ = Inr ''unknown''"

text \<open>
  \<^verbatim>\<open>_get_placeholder\<close>. The attribute name is optional in the source
  (\<^verbatim>\<open>attr_name=None\<close>); the default is \<open>JNull\<close> when the schema declares none.
\<close>

definition get_placeholder :: "string \<Rightarrow> string option \<Rightarrow> json \<Rightarrow> string" where
  "get_placeholder type_sig attr_name dflt =
     (if dflt \<noteq> JNull then json_dumps dflt
      else if attr_name \<noteq> None \<and> the attr_name \<noteq> [] \<and> py_endswith (the attr_name) ''_name'' then
        ''azurerm_'' @ py_drop_last 5 (the attr_name) @ ''.example.name''
      else if attr_name \<noteq> None \<and> the attr_name \<noteq> [] \<and> py_endswith (the attr_name) ''_id'' then
        ''azurerm_'' @ py_drop_last 3 (the attr_name) @ ''.example.id''
      else if type_sig = ''string'' then [CHR 0x22, CHR 0x22]
      else if type_sig = ''bool'' then ''false''
      else if type_sig = ''number'' then ''0''
      else if py_startswith type_sig ''list'' \<or> py_startswith type_sig ''set'' then ''[]''
      else if py_startswith type_sig ''map'' \<or> py_startswith type_sig ''object'' then ''{}''
      else if py_startswith type_sig ''tuple'' then ''[]''
      else ''null'')"

section \<open>Rendering\<close>

text \<open>
  \<^verbatim>\<open>for x in xs: lines.extend(f(x))\<close>, given the results of \<open>f\<close> in order: the first
  exception ends the loop, otherwise the lines are appended in order.
\<close>

fun collect :: "(py_error + string list) list \<Rightarrow> py_error + string list" where
  "collect [] = Inr []"
| "collect (r # rs) =
     (case r of
        Inl e \<Rightarrow> Inl e
      | Inr ls \<Rightarrow> (case collect rs of Inl e \<Rightarrow> Inl e | Inr ms \<Rightarrow> Inr (ls @ ms)))"

text \<open>
  \<^verbatim>\<open>schema.get('description', '').strip() if with_descriptions else None\<close>:
  only a string has \<^verbatim>\<open>strip\<close>.
\<close>

definition get_description :: "(string \<times> json) list \<Rightarrow> bool \<Rightarrow> py_error + string option" where
  "get_description kvs with_descriptions =
     (if with_descriptions then
        (case dict_get kvs ''description'' (JStr []) of
           JStr d \<Rightarrow> Inr (Some (py_strip d))
         | _ \<Rightarrow> Inl AttributeError)
      else Inr None)"

text \<open>\<^verbatim>\<open>if description:\<close> on the optional, stripped description.\<close>

definition has_description :: "string option \<Rightarrow> bool" where
  "has_description description = (case description of Some d \<Rightarrow> d \<noteq> [] | None \<Rightarrow> False)"

text \<open>
  \<^verbatim>\<open>[f"{indent}# {line}" for line in description.split('\n') if line.strip()]\<close>
\<close>

definition desc_lines :: "string \<Rightarrow> string \<Rightarrow> string list" where
  "desc_lines indent d =
     map (\<lambda>line. indent @ ''# '' @ line)
       (filter (\<lambda>line. py_strip line \<noteq> []) (py_split CHR ''\<newline>'' d))"

text \<open>The annotation of an attribute, lines 100 to 105 of the source.\<close>

definition attribute_comment :: "(string \<times> json) list \<Rightarrow> string \<Rightarrow> string" where
  "attribute_comment kvs type_sig =
     (let required = dict_get kvs ''required'' (JBool False);
          optional = dict_get kvs ''optional'' (JBool False);
          sensitive = dict_get kvs ''sensitive'' (JBool False);
          dflt = dict_get kvs ''default'' JNull;
          status = (if py_truthy required then ''required''
                    else if py_truthy optional then ''optional'' else ''computed'')
      in ''# '' @ status @ '', type: '' @ type_sig
         @ (if py_truthy sensitive then '', sensitive'' else [])
         @ (if dflt \<noteq> JNull then '', default: '' @ py_str dflt else []))"

text \<open>\<^verbatim>\<open>_format_attribute\<close>.\<close>

fun format_attribute ::
  "string \<Rightarrow> json \<Rightarrow> bool \<Rightarrow> int \<Rightarrow> bool \<Rightarrow> py_error + string list" where
  "format_attribute name (JObj kvs) with_descriptions indent_level required_only =
     (if required_only \<and> \<not> py_truthy (dict_get kvs ''required'' (JBool False)) then Inr []
      else
        (case parse_type (dict_get kvs ''type'' JNull) of
           Inl e \<Rightarrow> Inl e
         | Inr type_sig \<Rightarrow>
             (case get_description kvs with_descriptions of
                Inl e \<Rightarrow> Inl e
              | Inr description \<Rightarrow>
                  if py_truthy (dict_get kvs ''deprecated'' (JBool False)) then Inr []
                  else
                    (let indent = py_repeat ''  '' indent_level;
                         comment = attribute_comment kvs type_sig;
                         placeholder =
                           get_placeholder type_sig (Some name) (dict_get kvs ''default'' JNull);
                         line = indent @ name @ '' = '' @ placeholder
                     in if has_description description then
                          Inr [py_join ''\<newline>''
                                 (desc_lines indent (the description) @ [indent @ comment]),
                               line]
                        else Inr [line @ ''  '' @ comment]))))"
| "format_attribute name _ with_descriptions indent_level required_only = Inl AttributeError"

text \<open>
  The nesting comment of a block-type, lines 140 to 148 of the source: the description
  lines and the comment, or the comment alone behind a second \<^verbatim>\<open>#\<close>.
\<close>

definition block_comment_lines ::
  "(string \<times> json) list \<Rightarrow> string option \<Rightarrow> string \<Rightarrow> string list" where
  "block_comment_lines kvs description indent =
     (let nesting = dict_get kvs ''nesting_mode'' (JStr ''single'');
          min_items = dict_get kvs ''min_items'' (JInt 0);
          max_items = dict_get kvs ''max_items'' JNull;
          comment = ''# nesting: '' @ py_str nesting @ '', min: '' @ py_str min_items
                    @ (if max_items \<noteq> JNull then '', max: '' @ py_str max_items else [])
      in if has_description description then
           desc_lines indent (the description) @ [indent @ comment]
         else [indent @ ''# '' @ comment])"

text \<open>The comment in front of a list or set block, lines 158 to 161.\<close>

definition repeat_comment :: "(string \<times> json) list \<Rightarrow> string \<Rightarrow> string" where
  "repeat_comment kvs indent =
     (let min_items = dict_get kvs ''min_items'' (JInt 0);
          max_items = dict_get kvs ''max_items'' JNull
      in indent @ ''# Repeat this block as needed (min: '' @ py_str min_items
         @ (if py_truthy max_items then '', max: '' @ py_str max_items else [])
         @ '')'')"

text \<open>
  Lines 134 to 136: the sorted attributes and block-types of the nested block. A value
  that is not a dict has neither \<^verbatim>\<open>get\<close> nor \<^verbatim>\<open>items\<close>.
\<close>

definition sub_members ::
  "(string \<times> json) list \<Rightarrow> py_error + ((string \<times> json) list \<times> (string \<times> json) list)" where
  "sub_members kvs =
     (case dict_get kvs ''block'' (JObj []) of
        JObj b \<Rightarrow>
          (case dict_get b ''attributes'' (JObj []) of
             JObj a \<Rightarrow>
               (case dict_get b ''block_types'' (JObj []) of
                  JObj t \<Rightarrow> Inr (sorted_items a, sorted_items t)
                | _ \<Rightarrow> Inl AttributeError)
           | _ \<Rightarrow> Inl AttributeError)
      | _ \<Rightarrow> Inl AttributeError)"

text \<open>
  \<^verbatim>\<open>_format_block_type\<close>. The recursion goes into the block-types of the nested
  block; each loop of the source is a \<open>collect\<close> over the results of its body.
\<close>

function format_block_type ::
  "string \<Rightarrow> json \<Rightarrow> bool \<Rightarrow> int \<Rightarrow> bool \<Rightarrow> py_error + string list" where
  "format_block_type name (JObj kvs) with_descriptions indent_level required_only =
     (let min_items = dict_get kvs ''min_items'' (JInt 0) in
      if required_only \<and> py_eq_zero min_items then Inr []
      else
        (let indent = py_repeat ''  '' indent_level;
             nesting = dict_get kvs ''nesting_mode'' (JStr ''single'')
         in case get_description kvs with_descriptions of
              Inl e \<Rightarrow> Inl e
            | Inr description \<Rightarrow>
                (case sub_members kvs of
                   Inl e \<Rightarrow> Inl e
                 | Inr (sub_attributes, sub_block_types) \<Rightarrow>
                     (let lines = block_comment_lines kvs description indent in
                      if nesting = JStr ''single'' then
                        collect
                          ([Inr lines, Inr [indent @ name @ '' {'']]
                           @ map (\<lambda>(attr_name, attr_schema).
                                    format_attribute attr_name attr_schema with_descriptions
                                      (indent_level + 1) required_only) sub_attributes
                           @ map (\<lambda>(bt_name, bt_schema).
                                    format_block_type bt_name bt_schema with_descriptions
                                      (indent_level + 1) required_only) sub_block_types
                           @ [Inr [indent @ ''}'']])
                      else if nesting = JStr ''list'' \<or> nesting = JStr ''set'' then
                        (case py_gt_zero min_items of
                           Inl e \<Rightarrow> Inl e
                         | Inr positive \<Rightarrow>
                             if positive then
                               (case py_range min_items of
                                  Inl e \<Rightarrow> Inl e
                                | Inr indices \<Rightarrow>
                                    collect
                                      ([Inr lines, Inr [repeat_comment kvs indent]]
                                       @ map (\<lambda>i.
                                           collect
                                             ([Inr [indent @ name @ '' {'']]
                                              @ map (\<lambda>(attr_name, attr_schema).
                                                  format_attribute attr_name attr_schema
                                                    with_descriptions (indent_level + 1)
                                                    required_only) sub_attributes
                                              @ map (\<lambda>(bt_name, bt_schema).
                                                  format_block_type bt_name bt_schema
                                                    with_descriptions (indent_level + 1)
                                                    required_only) sub_block_types
                                              @ [Inr [indent @ ''}'']])) indices))
                             else
                               Inr (lines
                                    @ [repeat_comment kvs indent,
                                       indent @ name @ '' {  # optional, uncomment and fill if needed'',
                                       indent @ ''  # ...'',
                                       indent @ ''}'']))
                      else if nesting = JStr ''map'' then
                        collect
                          ([Inr lines,
                            Inr [indent @ name @ '' = {  # key = value syntax, repeat as needed'',
                                 indent @ ''  example_key {'']]
                           @ map (\<lambda>(attr_name, attr_schema).
                                    format_attribute attr_name attr_schema with_descriptions
                                      (indent_level + 2) required_only) sub_attributes
                           @ map (\<lambda>(bt_name, bt_schema).
                                    format_block_type bt_name bt_schema with_descriptions
                                      (indent_level + 2) required_only) sub_block_types
                           @ [Inr [indent @ ''  }'', indent @ ''}'']])
                      else Inr lines))))"
| "format_block_type name JNull with_descriptions indent_level required_only = Inl AttributeError"
| "format_block_type name (JBool b) with_descriptions indent_level required_only = Inl AttributeError"
| "format_block_type name (JInt i) with_descriptions indent_level required_only = Inl AttributeError"
| "format_block_type name (JStr s) with_descriptions indent_level required_only = Inl AttributeError"
| "format_block_type name (JArr xs) with_descriptions indent_level required_only = Inl AttributeError"
  by pat_completeness auto

text \<open>
  \<^verbatim>\<open>generate_hcl_template\<close>. An unknown name and an empty block both fail the test
  \<^verbatim>\<open>if not block\<close> and raise the ValueError. The attributes are read, sorted and
  rendered before the block-types are read.
\<close>

definition generate_hcl_template ::
  "parser \<Rightarrow> string \<Rightarrow> bool \<Rightarrow> bool \<Rightarrow> int \<Rightarrow> py_error + string" where
  "generate_hcl_template p name with_descriptions required_only indent_level =
     (case get_schema_block p name of
        Inl e \<Rightarrow> Inl e
      | Inr block \<Rightarrow>
          if \<not> py_truthy block then Inl (ValueError (''No schema found for '' @ name))
          else
            (let is_resource = (map_of (resources p) name \<noteq> None);
                 block_type = (if is_resource then ''resource'' else ''data'');
                 label = name;
                 instance_name = ''example'';
                 header = block_type @ '' '' @ [CHR 0x22] @ label @ [CHR 0x22] @ '' ''
                          @ [CHR 0x22] @ instance_name @ [CHR 0x22] @ '' {''
             in case block of
                  JObj b \<Rightarrow>
                    (case dict_get b ''attributes'' (JObj []) of
                       JObj a \<Rightarrow>
                         (case collect
                                 (map (\<lambda>(attr_name, attr_schema).
                                         format_attribute attr_name attr_schema with_descriptions
                                           (indent_level + 1) required_only) (sorted_items a)) of
                            Inl e \<Rightarrow> Inl e
                          | Inr attr_lines \<Rightarrow>
                              (case dict_get b ''block_types'' (JObj []) of
                                 JObj t \<Rightarrow>
                                   (case collect
                                           (map (\<lambda>(bt_name, bt_schema).
                                                   format_block_type bt_name bt_schema
                                                     with_descriptions (indent_level + 1)
                                                     required_only) (sorted_items t)) of
                                      Inl e \<Rightarrow> Inl e
                                    | Inr bt_lines \<Rightarrow>
                                        Inr (py_join ''\<newline>''
                                               ([header] @ attr_lines @ bt_lines
                                                @ [py_repeat ''}'' (indent_level + 1)])))
                               | _ \<Rightarrow> Inl AttributeError))
                     | _ \<Rightarrow> Inl AttributeError)
                | _ \<Rightarrow> Inl AttributeError))"

section \<open>Auxiliary notions for the properties\<close>

text \<open>
  The type expressions on which \<open>parse_type\<close> indexes inside the list: a list is not
  empty, and a list tagged list, set or map has an element type of the same kind.
\<close>

fun type_shape_ok :: "json \<Rightarrow> bool" where
  "type_shape_ok (JArr []) = False"
| "type_shape_ok (JArr (t # ts)) =
     (if t = JStr ''list'' \<or> t = JStr ''set'' \<or> t = JStr ''map''
      then (case ts of [] \<Rightarrow> False | e # _ \<Rightarrow> type_shape_ok e)
      else True)"
| "type_shape_ok _ = True"

text \<open>The entry of the scenario: one required string attribute and nothing else.\<close>

definition widget_parser :: parser where
  "widget_parser =
     \<lparr>resources =
        [(''example_widget'',
          JObj [(''block'',
            JObj [(''attributes'',
              JObj [(''display_name'',
                JObj [(''type'', JStr ''string''), (''required'', JBool True)])])])])],
      data_sources = []\<rparr>"

text \<open>An optional attribute with an \<open>_id\<close> name and a default.\<close>

definition parent_attribute :: "(string \<times> json) list" where
  "parent_attribute =
     [(''type'', JStr ''string''), (''optional'', JBool True), (''default'', JStr ''root'')]"

text \<open>A provider in which one name is both a resource and a data source.\<close>

definition twin_parser :: parser where
  "twin_parser =
     \<lparr>resources =
        [(''twin'',
          JObj [(''block'',
            JObj [(''attributes'', JObj [(''size'', JObj [(''type'', JStr ''number'')])])])])],
      data_sources =
        [(''twin'',
          JObj [(''block'',
            JObj [(''attributes'', JObj [(''flag'', JObj [(''type'', JStr ''bool'')])])])])]\<rparr>"

text \<open>
  The results of the two member loops of a block, attributes first, as the list that
  \<open>collect\<close> consumes.
\<close>

definition member_results ::
  "bool \<Rightarrow> bool \<Rightarrow> int \<Rightarrow> (string \<times> json) list \<Rightarrow> (string \<times> json) list
     \<Rightarrow> (py_error + string list) list" where
  "member_results with_descriptions required_only indent_level sub_attributes sub_block_types =
     map (\<lambda>(attr_name, attr_schema).
            format_attribute attr_name attr_schema with_descriptions indent_level required_only)
       sub_attributes
     @ map (\<lambda>(bt_name, bt_schema).
            format_block_type bt_name bt_schema with_descriptions indent_level required_only)
       sub_block_types"

text \<open>The number of indices of \<^verbatim>\<open>range(min_items)\<close>.\<close>

fun instance_count :: "json \<Rightarrow> nat" where
  "instance_count (JInt i) = nat i"
| "instance_count (JBool b) = (if b then 1 else 0)"
| "instance_count _ = 0"

text \<open>
  The dispatch on the nesting mode, lines 150 to 183, over the results of the member
  loops at depth + 1 and at depth + 2.
\<close>

definition render_mode ::
  "string \<Rightarrow> (string \<times> json) list \<Rightarrow> string option \<Rightarrow> int
     \<Rightarrow> (py_error + string list) list \<Rightarrow> (py_error + string list) list
     \<Rightarrow> py_error + string list" where
  "render_mode name kvs description indent_level members1 members2 =
     (let indent = py_repeat ''  '' indent_level;
          nesting = dict_get kvs ''nesting_mode'' (JStr ''single'');
          min_items = dict_get kvs ''min_items'' (JInt 0);
          lines = block_comment_lines kvs description indent
      in if nesting = JStr ''single'' then
           collect ([Inr lines, Inr [indent @ name @ '' {'']] @ members1 @ [Inr [indent @ ''}'']])
         else if nesting = JStr ''list'' \<or> nesting = JStr ''set'' then
           (case py_gt_zero min_items of
              Inl e \<Rightarrow> Inl e
            | Inr positive \<Rightarrow>
                if positive then
                  (case py_range min_items of
                     Inl e \<Rightarrow> Inl e
                   | Inr indices \<Rightarrow>
                       collect
                         ([Inr lines, Inr [repeat_comment kvs indent]]
                          @ map (\<lambda>i. collect ([Inr [indent @ name @ '' {'']] @ members1
                                               @ [Inr [indent @ ''}'']])) indices))
                else
                  Inr (lines
                       @ [repeat_comment kvs indent,
                          indent @ name @ '' {  # optional, uncomment and fill if needed'',
                          indent @ ''  # ...'',
                          indent @ ''}'']))
         else if nesting = JStr ''map'' then
           collect
             ([Inr lines,
               Inr [indent @ name @ '' = {  # key = value syntax, repeat as needed'',
                    indent @ ''  example_key {'']]
              @ members2 @ [Inr [indent @ ''  }'', indent @ ''}'']])
         else Inr lines)"

text \<open>
  A result \<open>r\<close> is below a result \<open>r'\<close> when, if \<open>r'\<close> is a list of lines, \<open>r\<close> is one too
  and its lines are a subsequence of the lines of \<open>r'\<close>.
\<close>

definition res_sub :: "py_error + string list \<Rightarrow> py_error + string list \<Rightarrow> bool" where
  "res_sub r r' = (\<forall>b. r' = Inr b \<longrightarrow> (\<exists>a. r = Inr a \<and> subseq a b))"

text \<open>
  The shape of the descriptors in the data model of the specification: a description,
  when present, is a string; \<open>min_items\<close>, when present, is an integer (or a boolean,
  which Python compares and counts as one); the members of a block are dicts of
  attribute descriptors and of block-type descriptors of that shape.
\<close>

definition description_ok :: "(string \<times> json) list \<Rightarrow> bool" where
  "description_ok kvs =
     (case map_of kvs ''description'' of
        None \<Rightarrow> True
      | Some (JStr d) \<Rightarrow> True
      | Some _ \<Rightarrow> False)"

definition min_items_ok :: "(string \<times> json) list \<Rightarrow> bool" where
  "min_items_ok kvs =
     (case dict_get kvs ''min_items'' (JInt 0) of
        JInt i \<Rightarrow> True
      | JBool b \<Rightarrow> True
      | _ \<Rightarrow> False)"

fun wf_attribute :: "json \<Rightarrow> bool" where
  "wf_attribute (JObj kvs) = (type_shape_ok (dict_get kvs ''type'' JNull) \<and> description_ok kvs)"
| "wf_attribute _ = False"

function wf_block_type :: "json \<Rightarrow> bool" where
  "wf_block_type (JObj kvs) =
     (description_ok kvs \<and> min_items_ok kvs \<and>
      (case dict_get kvs ''block'' (JObj []) of
         JObj b \<Rightarrow>
           (case dict_get b ''attributes'' (JObj []) of
              JObj a \<Rightarrow> list_all (\<lambda>(n, s). wf_attribute s) a
            | _ \<Rightarrow> False)
           \<and> (case dict_get b ''block_types'' (JObj []) of
                JObj t \<Rightarrow> list_all (\<lambda>(n, s). wf_block_type s) t
              | _ \<Rightarrow> False)
       | _ \<Rightarrow> False))"
| "wf_block_type JNull = False"
| "wf_block_type (JBool b) = False"
| "wf_block_type (JInt i) = False"
| "wf_block_type (JStr s) = False"
| "wf_block_type (JArr xs) = False"
  by pat_completeness auto

definition wf_block :: "json \<Rightarrow> bool" where
  "wf_block block =
     (case block of
        JObj b \<Rightarrow>
           (case dict_get b ''attributes'' (JObj []) of
              JObj a \<Rightarrow> list_all (\<lambda>(n, s). wf_attribute s) a
            | _ \<Rightarrow> False)
           \<and> (case dict_get b ''block_types'' (JObj []) of
                JObj t \<Rightarrow> list_all (\<lambda>(n, s). wf_block_type s) t
              | _ \<Rightarrow> False)
       | _ \<Rightarrow> False)"

text \<open>The header line of a template, lines 63 to 68 of the source.\<close>

definition entry_header :: "parser \<Rightarrow> string \<Rightarrow> string" where
  "entry_header p name =
     (if map_of (resources p) name \<noteq> None then ''resource'' else ''data'')
     @ '' '' @ [CHR 0x22] @ name @ [CHR 0x22] @ '' '' @ [CHR 0x22] @ ''example'' @ [CHR 0x22]
     @ '' {''"

text \<open>The lines of a rendered template; none when the call raised.\<close>

definition output_lines :: "py_error + string \<Rightarrow> string list" where
  "output_lines r = (case r of Inr out \<Rightarrow> py_split CHR ''\<newline>'' out | Inl e \<Rightarrow> [])"

text \<open>A provider whose resource \<open>hollow\<close> has an empty block.\<close>

definition hollow_parser :: parser where
  "hollow_parser = \<lparr>resources = [(''hollow'', JObj [(''block'', JObj [])])], data_sources = []\<rparr>"

text \<open>
  The nested block of a block-type descriptor is a dict, and so are its attributes and its
  block-types, each when present.
\<close>

definition members_shape_ok :: "(string \<times> json) list \<Rightarrow> bool" where
  "members_shape_ok kvs =
     (case dict_get kvs ''block'' (JObj []) of
        JObj b \<Rightarrow>
          (case dict_get b ''attributes'' (JObj []) of
             JObj a \<Rightarrow>
               (case dict_get b ''block_types'' (JObj []) of
                  JObj t \<Rightarrow> True
                | _ \<Rightarrow> False)
           | _ \<Rightarrow> False)
      | _ \<Rightarrow> False)"

text \<open>A list block that must occur twice, with one required attribute.\<close>

definition rule_schema :: "(string \<times> json) list" where
  "rule_schema =
     [(''nesting_mode'', JStr ''list''), (''min_items'', JInt 2),
      (''block'', JObj [(''attributes'',
         JObj [(''port'', JObj [(''type'', JStr ''number''), (''required'', JBool True)])])])]"

text \<open>The block-type of the scenario: a set block with \<open>min_items = 0\<close> and \<open>max_items = 5\<close>.\<close>

definition network_rule_schema :: "(string \<times> json) list" where
  "network_rule_schema =
     [(''nesting_mode'', JStr ''set''), (''min_items'', JInt 0), (''max_items'', JInt 5)]"

text \<open>A resource with a required and an optional attribute, a required and an optional block.\<close>

definition mixed_parser :: parser where
  "mixed_parser =
     \<lparr>resources =
        [(''mixed'',
          JObj [(''block'',
            JObj [(''attributes'',
                   JObj [(''note'', JObj [(''type'', JStr ''string''), (''optional'', JBool True)]),
                         (''label'', JObj [(''type'', JStr ''string''), (''required'', JBool True)])]),
                  (''block_types'',
                   JObj [(''rule'', JObj rule_schema),
                         (''network_rule'', JObj network_rule_schema)])])])],
      data_sources = []\<rparr>"

text \<open>A required attribute that is deprecated.\<close>

definition legacy_attribute :: "(string \<times> json) list" where
  "legacy_attribute =
     [(''type'', JStr ''string''), (''required'', JBool True), (''deprecated'', JBool True)]"

text \<open>A block-type whose nesting mode is none of the four the renderer knows.\<close>

definition group_schema :: "(string \<times> json) list" where
  "group_schema =
     [(''nesting_mode'', JStr ''group''), (''min_items'', JInt 1),
      (''description'', JStr ''A group''),
      (''block'', JObj [(''attributes'',
         JObj [(''port'', JObj [(''type'', JStr ''number''), (''required'', JBool True)])])])]"

text \<open>The full template of \<open>mixed\<close>.\<close>

definition mixed_full_template :: string where
  \<open>mixed_full_template =
     py_join ''\<newline>''
       [''resource "mixed" "example" {'',
        ''  label = ""  # required, type: string'',
        ''  note = ""  # optional, type: string'',
        ''  # # nesting: set, min: 0, max: 5'',
        ''  # Repeat this block as needed (min: 0, max: 5)'',
        ''  network_rule {  # optional, uncomment and fill if needed'',
        ''    # ...'',
        ''  }'',
        ''  # # nesting: list, min: 2'',
        ''  # Repeat this block as needed (min: 2)'',
        ''  rule {'', ''    port = 0  # required, type: number'', ''  }'',
        ''  rule {'', ''    port = 0  # required, type: number'', ''  }'',
        ''}'']\<close>

text \<open>
  Two blocks, and two block-type descriptors, that differ at most in the order in which
  their dicts list the items: the attributes of a block are the same set of items, its
  block-types have the same names and, under each name, descriptors that are again the
  same up to order; a descriptor has the same values under every key but \<open>block\<close>. The
  keys of a dict are pairwise different.
\<close>

inductive same_block :: "json \<Rightarrow> json \<Rightarrow> bool"
  and same_block_type :: "json \<Rightarrow> json \<Rightarrow> bool" where
  same_blockI:
    "\<lbrakk>b = [] \<longleftrightarrow> b' = [];
      dict_get b ''attributes'' (JObj []) = JObj a;
      dict_get b' ''attributes'' (JObj []) = JObj a';
      distinct (map fst a); distinct (map fst a'); set a = set a';
      dict_get b ''block_types'' (JObj []) = JObj t;
      dict_get b' ''block_types'' (JObj []) = JObj t';
      distinct (map fst t); distinct (map fst t'); fst ` set t = fst ` set t';
      \<forall>n s s'. (n, s) \<in> set t \<longrightarrow> (n, s') \<in> set t' \<longrightarrow> same_block_type s s'\<rbrakk>
     \<Longrightarrow> same_block (JObj b) (JObj b')"
| same_block_typeI:
    "\<lbrakk>\<forall>k. k \<noteq> ''block'' \<longrightarrow> map_of kvs k = map_of kvs' k;
      same_block (dict_get kvs ''block'' (JObj [])) (dict_get kvs' ''block'' (JObj []))\<rbrakk>
     \<Longrightarrow> same_block_type (JObj kvs) (JObj kvs')"

text \<open>
  A provider whose source order is not alphabetical at two depths, and the same provider
  with every dict listed in another order.
\<close>

definition tail_block :: "(string \<times> json) list" where
  "tail_block =
     [(''attributes'',
       JObj [(''y'', JObj [(''type'', JStr ''bool'')]), (''x'', JObj [(''type'', JStr ''number'')])])]"

definition tail_block_shuffled :: "(string \<times> json) list" where
  "tail_block_shuffled =
     [(''attributes'',
       JObj [(''x'', JObj [(''type'', JStr ''number'')]), (''y'', JObj [(''type'', JStr ''bool'')])])]"

definition tail_schema :: "(string \<times> json) list" where
  "tail_schema = [(''nesting_mode'', JStr ''single''), (''block'', JObj tail_block)]"

definition tail_schema_shuffled :: "(string \<times> json) list" where
  "tail_schema_shuffled = [(''block'', JObj tail_block_shuffled), (''nesting_mode'', JStr ''single'')]"

definition head_schema :: "(string \<times> json) list" where
  "head_schema = [(''nesting_mode'', JStr ''map'')]"

definition ordered_block :: "(string \<times> json) list" where
  "ordered_block =
     [(''attributes'',
       JObj [(''zone'', JObj [(''type'', JStr ''string'')]),
             (''alpha'', JObj [(''type'', JStr ''string'')])]),
      (''block_types'',
       JObj [(''tail'', JObj tail_schema), (''head'', JObj head_schema)])]"

definition ordered_block_shuffled :: "(string \<times> json) list" where
  "ordered_block_shuffled =
     [(''block_types'',
       JObj [(''head'', JObj head_schema), (''tail'', JObj tail_schema_shuffled)]),
      (''attributes'',
       JObj [(''alpha'', JObj [(''type'', JStr ''string'')]),
             (''zone'', JObj [(''type'', JStr ''string'')])])]"

definition ordered_parser :: parser where
  "ordered_parser =
     \<lparr>resources = [(''ordered'', JObj [(''block'', JObj ordered_block)])], data_sources = []\<rparr>"

definition ordered_parser_shuffled :: parser where
  "ordered_parser_shuffled =
     \<lparr>resources = [(''ordered'', JObj [(''block'', JObj ordered_block_shuffled)])],
      data_sources = []\<rparr>"

definition ordered_template :: string where
  \<open>ordered_template =
     py_join ''\<newline>''
       [''resource "ordered" "example" {'',
        ''  alpha = ""  # computed, type: string'',
        ''  zone = ""  # computed, type: string'',
        ''  # # nesting: map, min: 0'',
        ''  head = {  # key = value syntax, repeat as needed'',
        ''    example_key {'',
        ''    }'',
        ''  }'',
        ''  # # nesting: single, min: 0'',
        ''  tail {'',
        ''    x = 0  # computed, type: number'',
        ''    y = false  # computed, type: bool'',
        ''  }'',
        ''}'']\<close>

text \<open>A provider whose resource \<open>broken\<close> has an attribute with the empty list as type.\<close>

definition broken_type_parser :: parser where
  "broken_type_parser =
     \<lparr>resources =
        [(''broken'',
          JObj [(''block'',
            JObj [(''attributes'', JObj [(''tags'', JObj [(''type'', JArr [])])])])])],
      data_sources = []\<rparr>"

text \<open>The resource entry of \<open>twin\<close> and its template.\<close>

definition twin_entry :: json where
  "twin_entry =
     JObj [(''block'',
       JObj [(''attributes'', JObj [(''size'', JObj [(''type'', JStr ''number'')])])])]"

definition twin_template :: string where
  \<open>twin_template = ''resource "twin" "example" {\<newline>  size = 0  # computed, type: number\<newline>}''\<close>

section \<open>Termination of the block renderer\<close>

lemma size_map_of: "map_of kvs k = Some v \<Longrightarrow> size v < size (JObj kvs)"
  by (induction kvs) (auto split: if_splits)

lemma size_dict_get_obj: "dict_get kvs k (JObj []) = JObj b \<Longrightarrow> size (JObj b) \<le> size (JObj kvs)"
  using size_map_of [of kvs k "JObj b"]
  by (auto simp: dict_get_def split: option.splits)

lemma size_sorted_items: "(n, s) \<in> set (sorted_items t) \<Longrightarrow> size s < size (JObj t)"
proof -
  assume "(n, s) \<in> set (sorted_items t)"
  then have "(n, s) \<in> set t" by (simp add: sorted_items_def)
  then show ?thesis by (induction t) auto
qed

lemma size_sub_members:
  assumes "sub_members kvs = Inr (sa, st)" and "(n, s) \<in> set st"
  shows "size s < size (JObj kvs)"
proof -
  from assms(1) obtain b a t where
    b: "dict_get kvs ''block'' (JObj []) = JObj b" and
    t: "dict_get b ''block_types'' (JObj []) = JObj t" and
    st: "st = sorted_items t"
    by (auto simp: sub_members_def split: json.splits)
  from assms(2) st have "(n, s) \<in> set (sorted_items t)" by simp
  then have "size s < size (JObj t)" by (rule size_sorted_items)
  also have "\<dots> \<le> size (JObj b)" using t by (rule size_dict_get_obj)
  also have "\<dots> \<le> size (JObj kvs)" using b by (rule size_dict_get_obj)
  finally show ?thesis .
qed

lemma format_block_type_descends:
  assumes "sub_members kvs = Inr members" and "(sub_attributes, sub_block_types) = members"
    and "item \<in> set sub_block_types" and "(bt_name, bt_schema) = item"
  shows "((bt_name, bt_schema, wd, lvl', ro), (name, JObj kvs, wd, lvl, ro))
           \<in> measure (\<lambda>(name, schema, wd, lvl, ro). size schema)"
proof -
  from assms have "sub_members kvs = Inr (sub_attributes, sub_block_types)"
    and "(bt_name, bt_schema) \<in> set sub_block_types" by simp_all
  then have "size bt_schema < size (JObj kvs)" by (rule size_sub_members)
  then show ?thesis by simp
qed

termination format_block_type
proof (relation "measure (\<lambda>(name, schema, wd, lvl, ro). size schema)", goal_cases)
  case 1
  show ?case by simp
next
  case 2
  then show ?case by - (rule format_block_type_descends, assumption, assumption, assumption, assumption)
next
  case 3
  then show ?case by - (rule format_block_type_descends, assumption, assumption, assumption, assumption)
next
  case 4
  then show ?case by - (rule format_block_type_descends, assumption, assumption, assumption, assumption)
qed

lemma wf_block_type_descends:
  assumes "dict_get kvs ''block'' (JObj []) = JObj b"
    and "dict_get b ''block_types'' (JObj []) = JObj t"
    and "item \<in> set t" and "(n, s) = item"
  shows "(s, JObj kvs) \<in> measure size"
proof -
  from assms(3,4) have "(n, s) \<in> set t" by simp
  then have "size s < size (JObj t)" by (induction t) auto
  also have "\<dots> \<le> size (JObj b)" using assms(2) by (rule size_dict_get_obj)
  also have "\<dots> \<le> size (JObj kvs)" using assms(1) by (rule size_dict_get_obj)
  finally show ?thesis by simp
qed

termination wf_block_type
proof (relation "measure size", goal_cases)
  case 1
  show ?case by simp
next
  case 2
  then show ?case by - (rule wf_block_type_descends, assumption, assumption, assumption, assumption)
qed

declare format_block_type.simps [simp del]

declare wf_block_type.simps [simp del]

section \<open>Helper facts\<close>

subsection \<open>Type signatures and attributes\<close>

lemma parse_type_shape:
  "(type_shape_ok t \<longrightarrow> (\<exists>sig. parse_type t = Inr sig))
   \<and> (\<not> type_shape_ok t \<longrightarrow> parse_type t = Inl IndexError)"
  by (induction t rule: parse_type.induct) (auto split: list.splits sum.splits)

lemma parse_type_error: "parse_type t = Inl e \<Longrightarrow> e = IndexError"
  using parse_type_shape [of t] by auto

lemma format_attribute_default:
  assumes "dict_get kvs ''default'' JNull \<noteq> JNull"
    and "format_attribute n (JObj kvs) wd lvl ro = Inr ls" and "ls \<noteq> []"
  shows "prefix (py_repeat ''  '' lvl @ n @ '' = '' @ json_dumps (dict_get kvs ''default'' JNull))
           (last ls)"
  using assms
  by (auto simp: Let_def get_placeholder_def split: if_splits sum.splits)

lemma prefix_py_join_head: "prefix x (py_join sep (x # xs))"
  by (cases xs) simp_all

subsection \<open>The block renderer, mode by mode\<close>

lemma format_block_type_obj:
  "format_block_type name (JObj kvs) wd lvl ro =
     (if ro \<and> py_eq_zero (dict_get kvs ''min_items'' (JInt 0)) then Inr []
      else
        (case get_description kvs wd of
           Inl e \<Rightarrow> Inl e
         | Inr d \<Rightarrow>
             (case sub_members kvs of
                Inl e \<Rightarrow> Inl e
              | Inr (sa, st) \<Rightarrow>
                  render_mode name kvs d lvl
                    (member_results wd ro (lvl + 1) sa st)
                    (member_results wd ro (lvl + 2) sa st))))"
  unfolding format_block_type.simps render_mode_def member_results_def Let_def
  by (simp split: sum.splits prod.splits)

lemma collect_append:
  "collect (rs @ ss) =
     (case collect rs of
        Inl e \<Rightarrow> Inl e
      | Inr a \<Rightarrow> (case collect ss of Inl e \<Rightarrow> Inl e | Inr b \<Rightarrow> Inr (a @ b)))"
  by (induction rs) (auto split: sum.splits)

lemma collect_const:
  "collect (map (\<lambda>i. c) idx) =
     (if idx = [] then Inr []
      else case c of Inl e \<Rightarrow> Inl e | Inr x \<Rightarrow> Inr (concat (replicate (length idx) x)))"
  by (induction idx) (auto split: sum.splits if_splits)

lemma py_range_positive:
  assumes "py_gt_zero m = Inr True"
  shows "\<exists>idx. py_range m = Inr idx \<and> idx \<noteq> [] \<and> length idx = instance_count m"
  using assms by (cases m) auto

lemma render_mode_single:
  assumes "dict_get kvs ''nesting_mode'' (JStr ''single'') = JStr ''single''"
  shows "render_mode name kvs d lvl m1 m2 =
     (case collect m1 of
        Inl e \<Rightarrow> Inl e
      | Inr body \<Rightarrow>
          Inr (block_comment_lines kvs d (py_repeat ''  '' lvl)
               @ [py_repeat ''  '' lvl @ name @ '' {''] @ body @ [py_repeat ''  '' lvl @ ''}'']))"
  using assms by (simp add: render_mode_def Let_def collect_append split: sum.splits)

lemma render_mode_map:
  assumes "dict_get kvs ''nesting_mode'' (JStr ''single'') = JStr ''map''"
  shows "render_mode name kvs d lvl m1 m2 =
     (case collect m2 of
        Inl e \<Rightarrow> Inl e
      | Inr body \<Rightarrow>
          Inr (block_comment_lines kvs d (py_repeat ''  '' lvl)
               @ [py_repeat ''  '' lvl @ name @ '' = {  # key = value syntax, repeat as needed'',
                  py_repeat ''  '' lvl @ ''  example_key {'']
               @ body @ [py_repeat ''  '' lvl @ ''  }'', py_repeat ''  '' lvl @ ''}'']))"
  using assms by (simp add: render_mode_def Let_def collect_append split: sum.splits)

lemma render_mode_other:
  assumes "dict_get kvs ''nesting_mode'' (JStr ''single'') \<notin>
             {JStr ''single'', JStr ''list'', JStr ''set'', JStr ''map''}"
  shows "render_mode name kvs d lvl m1 m2 = Inr (block_comment_lines kvs d (py_repeat ''  '' lvl))"
  using assms by (simp add: render_mode_def Let_def)

lemma render_mode_repeat:
  assumes "dict_get kvs ''nesting_mode'' (JStr ''single'') \<in> {JStr ''list'', JStr ''set''}"
  shows "render_mode name kvs d lvl m1 m2 =
     (case py_gt_zero (dict_get kvs ''min_items'' (JInt 0)) of
        Inl e \<Rightarrow> Inl e
      | Inr positive \<Rightarrow>
          if positive then
            (case collect m1 of
               Inl e \<Rightarrow> Inl e
             | Inr body \<Rightarrow>
                 Inr (block_comment_lines kvs d (py_repeat ''  '' lvl)
                      @ [repeat_comment kvs (py_repeat ''  '' lvl)]
                      @ concat (replicate (instance_count (dict_get kvs ''min_items'' (JInt 0)))
                          ([py_repeat ''  '' lvl @ name @ '' {''] @ body
                           @ [py_repeat ''  '' lvl @ ''}'']))))
          else
            Inr (block_comment_lines kvs d (py_repeat ''  '' lvl)
                 @ [repeat_comment kvs (py_repeat ''  '' lvl),
                    py_repeat ''  '' lvl @ name @ '' {  # optional, uncomment and fill if needed'',
                    py_repeat ''  '' lvl @ ''  # ...'',
                    py_repeat ''  '' lvl @ ''}'']))"
proof (cases "py_gt_zero (dict_get kvs ''min_items'' (JInt 0))")
  case (Inl e)
  with assms show ?thesis by (auto simp: render_mode_def Let_def)
next
  case (Inr positive)
  show ?thesis
  proof (cases positive)
    case False
    with Inr assms show ?thesis by (auto simp: render_mode_def Let_def)
  next
    case True
    with Inr have "py_gt_zero (dict_get kvs ''min_items'' (JInt 0)) = Inr True" by simp
    from py_range_positive [OF this] obtain idx where
      idx: "py_range (dict_get kvs ''min_items'' (JInt 0)) = Inr idx" "idx \<noteq> []"
        "length idx = instance_count (dict_get kvs ''min_items'' (JInt 0))"
      by blast
    have "render_mode name kvs d lvl m1 m2 =
        collect ([Inr (block_comment_lines kvs d (py_repeat ''  '' lvl)),
                  Inr [repeat_comment kvs (py_repeat ''  '' lvl)]]
                 @ map (\<lambda>i. collect ([Inr [py_repeat ''  '' lvl @ name @ '' {'']] @ m1
                                      @ [Inr [py_repeat ''  '' lvl @ ''}'']])) idx)"
      using assms Inr True idx(1) by (auto simp: render_mode_def Let_def)
    also have "\<dots> = (case collect m1 of
               Inl e \<Rightarrow> Inl e
             | Inr body \<Rightarrow>
                 Inr (block_comment_lines kvs d (py_repeat ''  '' lvl)
                      @ [repeat_comment kvs (py_repeat ''  '' lvl)]
                      @ concat (replicate (instance_count (dict_get kvs ''min_items'' (JInt 0)))
                          ([py_repeat ''  '' lvl @ name @ '' {''] @ body
                           @ [py_repeat ''  '' lvl @ ''}'']))))"
      using idx(2,3) by (simp add: collect_const collect_append split: sum.splits)
    finally show ?thesis using Inr True by simp
  qed
qed

subsection \<open>Induction over nested block-types\<close>

lemma block_type_induct [case_names obj other]:
  assumes obj: "\<And>kvs. (\<And>sa st n s. sub_members kvs = Inr (sa, st) \<Longrightarrow> (n, s) \<in> set st \<Longrightarrow> P s)
                  \<Longrightarrow> P (JObj kvs)"
    and other: "\<And>v. (\<And>kvs. v \<noteq> JObj kvs) \<Longrightarrow> P v"
  shows "P schema"
proof (induction schema rule: measure_induct_rule [where f = size])
  case (less v)
  show ?case
  proof (cases v)
    case (JObj kvs)
    have "P (JObj kvs)"
    proof (rule obj)
      fix sa st n s
      assume "sub_members kvs = Inr (sa, st)" and "(n, s) \<in> set st"
      then have "size s < size (JObj kvs)" by (rule size_sub_members)
      with JObj show "P s" using less by simp
    qed
    with JObj show ?thesis by simp
  qed (auto intro: other)
qed

lemma format_block_type_non_obj:
  assumes "\<And>kvs. v \<noteq> JObj kvs"
  shows "format_block_type n v wd lvl ro = Inl AttributeError"
  using assms by (cases v) (auto simp: format_block_type.simps(2-6))

subsection \<open>The required-only filter only drops lines\<close>

lemma res_sub_refl: "res_sub r r"
  by (simp add: res_sub_def)

lemma res_sub_Nil: "res_sub (Inr []) r"
  by (simp add: res_sub_def)

lemma res_sub_collect:
  "list_all2 res_sub rs ss \<Longrightarrow> res_sub (collect rs) (collect ss)"
proof (induction rule: list_all2_induct)
  case Nil
  show ?case by (simp add: res_sub_def)
next
  case (Cons r rs s ss)
  then show ?case
    by (auto simp: res_sub_def split: sum.splits intro: list_emb_append_mono)
qed

lemma format_attribute_required_only:
  "res_sub (format_attribute n s wd lvl True) (format_attribute n s wd lvl False)"
proof (cases s)
  case (JObj kvs)
  show ?thesis
  proof (cases "py_truthy (dict_get kvs ''required'' (JBool False))")
    case True
    with JObj have "format_attribute n s wd lvl True = format_attribute n s wd lvl False"
      by simp
    then show ?thesis by (simp add: res_sub_refl)
  next
    case False
    with JObj show ?thesis by (simp add: res_sub_Nil)
  qed
qed (simp_all add: res_sub_refl)

lemma subseq_concat_replicate:
  "subseq xs ys \<Longrightarrow> subseq (concat (replicate k xs)) (concat (replicate k ys))"
  by (induction k) (auto intro: list_emb_append_mono)

lemma render_mode_required_only:
  assumes "res_sub (collect m1) (collect m1')" and "res_sub (collect m2) (collect m2')"
  shows "res_sub (render_mode name kvs d lvl m1 m2) (render_mode name kvs d lvl m1' m2')"
proof -
  let ?nesting = "dict_get kvs ''nesting_mode'' (JStr ''single'')"
  consider (single) "?nesting = JStr ''single''"
    | (rep) "?nesting \<in> {JStr ''list'', JStr ''set''}"
    | (map) "?nesting = JStr ''map''"
    | (other) "?nesting \<notin> {JStr ''single'', JStr ''list'', JStr ''set'', JStr ''map''}"
    by blast
  then show ?thesis
  proof cases
    case single
    with assms(1) show ?thesis
      by (auto simp: render_mode_single res_sub_def split: sum.splits
          intro!: list_emb_append_mono)
  next
    case rep
    with assms(1) show ?thesis
      by (auto simp: render_mode_repeat res_sub_def split: sum.splits
          intro!: list_emb_append_mono subseq_concat_replicate)
  next
    case map
    with assms(2) show ?thesis
      by (auto simp: render_mode_map res_sub_def split: sum.splits
          intro!: list_emb_append_mono)
  next
    case other
    then show ?thesis by (simp add: render_mode_other res_sub_refl)
  qed
qed

lemma member_results_required_only:
  assumes "\<And>n s. (n, s) \<in> set st \<Longrightarrow>
             res_sub (format_block_type n s wd lvl True) (format_block_type n s wd lvl False)"
  shows "res_sub (collect (member_results wd True lvl sa st))
           (collect (member_results wd False lvl sa st))"
proof (rule res_sub_collect)
  have "list_all2 res_sub
          (map (\<lambda>(n, s). format_attribute n s wd lvl True) sa)
          (map (\<lambda>(n, s). format_attribute n s wd lvl False) sa)"
    by (auto simp: list_all2_map1 list_all2_map2 format_attribute_required_only
        intro!: list.rel_refl_strong)
  moreover have "list_all2 res_sub
          (map (\<lambda>(n, s). format_block_type n s wd lvl True) st)
          (map (\<lambda>(n, s). format_block_type n s wd lvl False) st)"
    using assms
    by (auto simp: list_all2_map1 list_all2_map2 intro!: list.rel_refl_strong)
  ultimately show "list_all2 res_sub (member_results wd True lvl sa st)
           (member_results wd False lvl sa st)"
    unfolding member_results_def by (rule list_all2_appendI)
qed

lemma format_block_type_required_only:
  "res_sub (format_block_type n s wd lvl True) (format_block_type n s wd lvl False)"
proof (induction s arbitrary: n lvl rule: block_type_induct)
  case (obj kvs)
  show ?case
  proof (cases "sub_members kvs")
    case (Inl e)
    then show ?thesis
      by (auto simp: format_block_type_obj res_sub_def split: sum.splits)
  next
    case (Inr m)
    obtain sa st where m: "m = (sa, st)" by (cases m)
    have ih: "\<And>n s l. (n, s) \<in> set st \<Longrightarrow>
             res_sub (format_block_type n s wd l True) (format_block_type n s wd l False)"
      using obj Inr m by blast
    have r: "res_sub (render_mode n kvs d lvl (member_results wd True (lvl + 1) sa st)
                        (member_results wd True (lvl + 2) sa st))
               (render_mode n kvs d lvl (member_results wd False (lvl + 1) sa st)
                        (member_results wd False (lvl + 2) sa st))" for d
      by (intro render_mode_required_only member_results_required_only ih)
    show ?thesis
    proof (cases "get_description kvs wd")
      case (Inl e)
      then show ?thesis
        by (auto simp: format_block_type_obj res_sub_def split: sum.splits)
    next
      case d: (Inr d)
      show ?thesis
      proof (cases "py_eq_zero (dict_get kvs ''min_items'' (JInt 0))")
        case True
        then show ?thesis by (simp add: format_block_type_obj res_sub_Nil)
      next
        case False
        with Inr m d r [of d] show ?thesis by (simp add: format_block_type_obj)
      qed
    qed
  qed
next
  case (other v)
  then show ?case by (simp add: format_block_type_non_obj res_sub_refl)
qed

subsection \<open>Exceptions, and schemas that raise none\<close>

lemma collect_Inl: "collect rs = Inl e \<Longrightarrow> Inl e \<in> set rs"
  by (induction rs) (auto split: sum.splits)

lemma collect_all_Inr:
  "(\<And>r. r \<in> set rs \<Longrightarrow> \<exists>ls. r = Inr ls) \<Longrightarrow> \<exists>ls. collect rs = Inr ls"
proof (induction rs)
  case Nil
  show ?case by simp
next
  case (Cons r rs)
  from Cons.prems obtain a where "r = Inr a" by fastforce
  moreover from Cons obtain b where "collect rs = Inr b" by fastforce
  ultimately show ?case by simp
qed

lemma get_description_error: "get_description kvs wd = Inl e \<Longrightarrow> e = AttributeError"
  by (auto simp: get_description_def split: if_splits json.splits)

lemma get_description_ok:
  "description_ok kvs \<Longrightarrow> \<exists>d. get_description kvs wd = Inr d"
  by (auto simp: get_description_def description_ok_def dict_get_def
      split: option.splits json.splits)

lemma sub_members_error: "sub_members kvs = Inl e \<Longrightarrow> e = AttributeError"
  by (auto simp: sub_members_def split: json.splits)

lemma format_attribute_error:
  assumes "format_attribute n s wd lvl ro = Inl e"
  shows "e = AttributeError \<or> e = IndexError"
proof (cases s)
  case (JObj kvs)
  with assms show ?thesis
    by (auto simp: Let_def split: if_splits sum.splits
        dest: parse_type_error get_description_error)
qed (use assms in auto)

lemma format_attribute_wf:
  assumes "wf_attribute s"
  shows "\<exists>ls. format_attribute n s wd lvl ro = Inr ls"
proof (cases s)
  case (JObj kvs)
  with assms obtain sig d where "parse_type (dict_get kvs ''type'' JNull) = Inr sig"
    and "get_description kvs wd = Inr d"
    using parse_type_shape get_description_ok by (metis wf_attribute.simps(1))
  with JObj show ?thesis by (simp add: Let_def)
qed (use assms in auto)

lemma py_gt_zero_error: "py_gt_zero m = Inl e \<Longrightarrow> e = TypeError"
  by (cases m) auto

lemma render_mode_error:
  assumes "render_mode name kvs d lvl m1 m2 = Inl e"
  shows "e = TypeError \<or> collect m1 = Inl e \<or> collect m2 = Inl e"
proof -
  let ?nesting = "dict_get kvs ''nesting_mode'' (JStr ''single'')"
  consider (single) "?nesting = JStr ''single''"
    | (rep) "?nesting \<in> {JStr ''list'', JStr ''set''}"
    | (map) "?nesting = JStr ''map''"
    | (other) "?nesting \<notin> {JStr ''single'', JStr ''list'', JStr ''set'', JStr ''map''}"
    by blast
  then show ?thesis
  proof cases
    case single
    with assms show ?thesis by (auto simp: render_mode_single split: sum.splits)
  next
    case rep
    with assms show ?thesis
      by (auto simp: render_mode_repeat split: sum.splits if_splits dest: py_gt_zero_error)
  next
    case map
    with assms show ?thesis by (auto simp: render_mode_map split: sum.splits)
  next
    case other
    with assms show ?thesis by (simp add: render_mode_other)
  qed
qed

lemma render_mode_ok:
  assumes "min_items_ok kvs" and "collect m1 = Inr b1" and "collect m2 = Inr b2"
  shows "\<exists>ls. render_mode name kvs d lvl m1 m2 = Inr ls"
proof -
  let ?nesting = "dict_get kvs ''nesting_mode'' (JStr ''single'')"
  from assms(1) obtain pos where pos: "py_gt_zero (dict_get kvs ''min_items'' (JInt 0)) = Inr pos"
    by (auto simp: min_items_ok_def split: json.splits)
  consider (single) "?nesting = JStr ''single''"
    | (rep) "?nesting \<in> {JStr ''list'', JStr ''set''}"
    | (map) "?nesting = JStr ''map''"
    | (other) "?nesting \<notin> {JStr ''single'', JStr ''list'', JStr ''set'', JStr ''map''}"
    by blast
  then show ?thesis
  proof cases
    case single
    with assms show ?thesis by (simp add: render_mode_single)
  next
    case rep
    with assms pos show ?thesis by (simp add: render_mode_repeat)
  next
    case map
    with assms show ?thesis by (simp add: render_mode_map)
  next
    case other
    then show ?thesis by (simp add: render_mode_other)
  qed
qed

lemma member_results_Inl:
  assumes "collect (member_results wd ro lvl sa st) = Inl e"
  shows "(\<exists>n s. (n, s) \<in> set sa \<and> format_attribute n s wd lvl ro = Inl e)
       \<or> (\<exists>n s. (n, s) \<in> set st \<and> format_block_type n s wd lvl ro = Inl e)"
proof -
  from collect_Inl [OF assms] consider
      n s where "(n, s) \<in> set sa" "Inl e = format_attribute n s wd lvl ro"
    | n s where "(n, s) \<in> set st" "Inl e = format_block_type n s wd lvl ro"
    by (auto simp: member_results_def)
  then show ?thesis by cases (metis, metis)
qed

lemma format_block_type_error:
  "format_block_type n s wd lvl ro = Inl e
     \<Longrightarrow> e = AttributeError \<or> e = IndexError \<or> e = TypeError"
proof (induction s arbitrary: n lvl e rule: block_type_induct)
  case (obj kvs)
  show ?case
  proof (cases "sub_members kvs")
    case (Inl e')
    with obj.prems show ?thesis
      by (auto simp: format_block_type_obj split: if_splits sum.splits
          dest: get_description_error sub_members_error)
  next
    case (Inr m)
    obtain sa st where m: "m = (sa, st)" by (cases m)
    have members: "e' = AttributeError \<or> e' = IndexError \<or> e' = TypeError"
      if "collect (member_results wd ro l sa st) = Inl e'" for l e'
      using member_results_Inl [OF that] format_attribute_error obj.IH Inr m by blast
    from obj.prems Inr m show ?thesis
      by (auto simp: format_block_type_obj split: if_splits sum.splits
          dest!: get_description_error render_mode_error dest: members)
  qed
next
  case (other v)
  then show ?case by (simp add: format_block_type_non_obj)
qed

lemma sub_members_wf:
  assumes "wf_block_type (JObj kvs)"
  shows "\<exists>sa st. sub_members kvs = Inr (sa, st)
           \<and> (\<forall>(n, s) \<in> set sa. wf_attribute s) \<and> (\<forall>(n, s) \<in> set st. wf_block_type s)"
  using assms
  by (auto simp: wf_block_type.simps sub_members_def sorted_items_def list_all_iff
      split: json.splits)

lemma member_results_wf:
  assumes "\<forall>(n, s) \<in> set sa. wf_attribute s"
    and "\<And>n s. (n, s) \<in> set st \<Longrightarrow> \<exists>ls. format_block_type n s wd lvl ro = Inr ls"
  shows "\<exists>ls. collect (member_results wd ro lvl sa st) = Inr ls"
proof (rule collect_all_Inr)
  fix r
  assume "r \<in> set (member_results wd ro lvl sa st)"
  then consider n s where "(n, s) \<in> set sa" "r = format_attribute n s wd lvl ro"
    | n s where "(n, s) \<in> set st" "r = format_block_type n s wd lvl ro"
    by (auto simp: member_results_def)
  then show "\<exists>ls. r = Inr ls"
  proof cases
    case 1
    with assms(1) format_attribute_wf show ?thesis by fastforce
  next
    case 2
    with assms(2) show ?thesis by simp
  qed
qed

lemma format_block_type_wf:
  "wf_block_type s \<Longrightarrow> \<exists>ls. format_block_type n s wd lvl ro = Inr ls"
proof (induction s arbitrary: n lvl rule: block_type_induct)
  case (obj kvs)
  from sub_members_wf [OF obj.prems] obtain sa st where
    m: "sub_members kvs = Inr (sa, st)" and
    sa: "\<forall>(n, s) \<in> set sa. wf_attribute s" and
    st: "\<forall>(n, s) \<in> set st. wf_block_type s"
    by blast
  from obj.prems have dok: "description_ok kvs" and mok: "min_items_ok kvs"
    by (simp_all add: wf_block_type.simps)
  from get_description_ok [OF dok] obtain d where d: "get_description kvs wd = Inr d" by blast
  have "\<exists>ls. collect (member_results wd ro l sa st) = Inr ls" for l
    using sa st obj.IH [OF m] by (intro member_results_wf) auto
  then obtain b1 b2 where "collect (member_results wd ro (lvl + 1) sa st) = Inr b1"
    and "collect (member_results wd ro (lvl + 2) sa st) = Inr b2"
    by blast
  from render_mode_ok [OF mok this] m d show ?case
    by (simp add: format_block_type_obj)
next
  case (other v)
  then show ?case by (cases v) (auto simp: wf_block_type.simps)
qed

subsection \<open>The template assembler\<close>

lemma generate_obj:
  assumes "get_schema_block p name = Inr (JObj b)" and "b \<noteq> []"
  shows "generate_hcl_template p name wd ro lvl =
     (case dict_get b ''attributes'' (JObj []) of
        JObj a \<Rightarrow>
          (case collect (map (\<lambda>(n, s). format_attribute n s wd (lvl + 1) ro) (sorted_items a)) of
             Inl e \<Rightarrow> Inl e
           | Inr attr_lines \<Rightarrow>
               (case dict_get b ''block_types'' (JObj []) of
                  JObj t \<Rightarrow>
                    (case collect (map (\<lambda>(n, s). format_block_type n s wd (lvl + 1) ro)
                                     (sorted_items t)) of
                       Inl e \<Rightarrow> Inl e
                     | Inr bt_lines \<Rightarrow>
                         Inr (py_join ''\<newline>''
                                (entry_header p name # attr_lines @ bt_lines
                                 @ [py_repeat ''}'' (lvl + 1)])))
                | _ \<Rightarrow> Inl AttributeError))
      | _ \<Rightarrow> Inl AttributeError)"
  using assms
  by (simp add: generate_hcl_template_def entry_header_def Let_def
      split: json.splits sum.splits)

lemma generate_not_obj:
  assumes "get_schema_block p name = Inr block" and "\<And>b. block \<noteq> JObj b"
  shows "\<exists>e. generate_hcl_template p name wd ro lvl = Inl e"
  using assms by (cases block) (auto simp: generate_hcl_template_def)

lemma generate_falsy:
  assumes "get_schema_block p name = Inr block" and "\<not> py_truthy block"
  shows "generate_hcl_template p name wd ro lvl = Inl (ValueError (''No schema found for '' @ name))"
  using assms by (simp add: generate_hcl_template_def)

lemma generate_Inr_D:
  assumes "generate_hcl_template p name wd ro lvl = Inr out"
  shows "\<exists>b a t body.
        get_schema_block p name = Inr (JObj b) \<and> b \<noteq> []
        \<and> dict_get b ''attributes'' (JObj []) = JObj a
        \<and> dict_get b ''block_types'' (JObj []) = JObj t
        \<and> collect (member_results wd ro (lvl + 1) (sorted_items a) (sorted_items t)) = Inr body
        \<and> out = py_join ''\<newline>'' (entry_header p name # body @ [py_repeat ''}'' (lvl + 1)])"
proof -
  from assms obtain block where block: "get_schema_block p name = Inr block"
    by (cases "get_schema_block p name") (auto simp: generate_hcl_template_def)
  with assms generate_not_obj obtain b where b: "block = JObj b"
    by (metis sum.distinct(1))
  from assms block b generate_falsy have ne: "b \<noteq> []"
    by (metis py_truthy.simps(6) sum.distinct(1))
  note g = assms [unfolded generate_obj [OF block [unfolded b] ne]]
  from g obtain a where a: "dict_get b ''attributes'' (JObj []) = JObj a"
    by (auto split: json.splits)
  from g a obtain al where
    al: "collect (map (\<lambda>(n, s). format_attribute n s wd (lvl + 1) ro) (sorted_items a)) = Inr al"
    by (auto split: sum.splits)
  from g a al obtain t where t: "dict_get b ''block_types'' (JObj []) = JObj t"
    by (auto split: json.splits)
  from g a al t obtain bl where
    bl: "collect (map (\<lambda>(n, s). format_block_type n s wd (lvl + 1) ro) (sorted_items t)) = Inr bl"
    by (auto split: sum.splits)
  from g a al t bl have out:
    "out = py_join ''\<newline>'' (entry_header p name # (al @ bl) @ [py_repeat ''}'' (lvl + 1)])"
    by simp
  have "collect (member_results wd ro (lvl + 1) (sorted_items a) (sorted_items t)) = Inr (al @ bl)"
    using al bl by (simp add: member_results_def collect_append)
  with block b ne a t out show ?thesis by blast
qed

lemma generate_Inr_I:
  assumes "get_schema_block p name = Inr (JObj b)" and "b \<noteq> []"
    and "dict_get b ''attributes'' (JObj []) = JObj a"
    and "dict_get b ''block_types'' (JObj []) = JObj t"
    and "collect (member_results wd ro (lvl + 1) (sorted_items a) (sorted_items t)) = Inr body"
  shows "generate_hcl_template p name wd ro lvl =
           Inr (py_join ''\<newline>'' (entry_header p name # body @ [py_repeat ''}'' (lvl + 1)]))"
  using assms(3-5)
  unfolding generate_obj [OF assms(1,2)] member_results_def collect_append
  by (auto split: json.splits sum.splits)

lemma generate_ValueError_iff:
  "(\<exists>m. generate_hcl_template p name wd ro lvl = Inl (ValueError m)) \<longleftrightarrow>
     (\<exists>block. get_schema_block p name = Inr block \<and> \<not> py_truthy block)"
proof
  assume "\<exists>block. get_schema_block p name = Inr block \<and> \<not> py_truthy block"
  then show "\<exists>m. generate_hcl_template p name wd ro lvl = Inl (ValueError m)"
    using generate_falsy by blast
next
  assume "\<exists>m. generate_hcl_template p name wd ro lvl = Inl (ValueError m)"
  then obtain m where m: "generate_hcl_template p name wd ro lvl = Inl (ValueError m)" by blast
  have gsb: "get_schema_block p name \<noteq> Inl (ValueError m)"
    by (auto simp: get_schema_block_def entry_block_def split: option.splits json.splits)
  have a: "collect (map (\<lambda>(n, s). format_attribute n s wd l ro) xs) \<noteq> Inl (ValueError m)" for xs l
  proof
    assume "collect (map (\<lambda>(n, s). format_attribute n s wd l ro) xs) = Inl (ValueError m)"
    from collect_Inl [OF this] obtain n s where "format_attribute n s wd l ro = Inl (ValueError m)"
      by force
    from format_attribute_error [OF this] show False by simp
  qed
  have b: "collect (map (\<lambda>(n, s). format_block_type n s wd l ro) xs) \<noteq> Inl (ValueError m)" for xs l
  proof
    assume "collect (map (\<lambda>(n, s). format_block_type n s wd l ro) xs) = Inl (ValueError m)"
    from collect_Inl [OF this] obtain n s where "format_block_type n s wd l ro = Inl (ValueError m)"
      by force
    from format_block_type_error [OF this] show False by simp
  qed
  show "\<exists>block. get_schema_block p name = Inr block \<and> \<not> py_truthy block"
  proof (rule ccontr)
    assume neg: "\<not> ?thesis"
    from m gsb obtain block where block: "get_schema_block p name = Inr block"
      by (cases "get_schema_block p name") (auto simp: generate_hcl_template_def)
    with neg have truthy: "py_truthy block" by simp
    show False
    proof (cases block)
      case (JObj bk)
      with truthy have "bk \<noteq> []" by simp
      from m a b show False
        unfolding generate_obj [OF block [unfolded JObj] \<open>bk \<noteq> []\<close>]
        by (auto split: json.splits sum.splits)
    qed (use m block truthy in \<open>auto simp: generate_hcl_template_def\<close>)
  qed
qed

lemma wf_block_members:
  assumes "wf_block (JObj b)"
  shows "\<exists>a t. dict_get b ''attributes'' (JObj []) = JObj a
           \<and> dict_get b ''block_types'' (JObj []) = JObj t
           \<and> (\<forall>(n, s) \<in> set (sorted_items a). wf_attribute s)
           \<and> (\<forall>(n, s) \<in> set (sorted_items t). wf_block_type s)"
  using assms
  by (auto simp: wf_block_def sorted_items_def list_all_iff split: json.splits)

lemma generate_wf:
  assumes "get_schema_block p name = Inr block" and "py_truthy block" and "wf_block block"
  shows "\<exists>out. generate_hcl_template p name wd ro lvl = Inr out"
proof -
  from assms(3) obtain b where b: "block = JObj b"
    by (cases block) (auto simp: wf_block_def)
  with assms(2) have ne: "b \<noteq> []" by simp
  from wf_block_members [OF assms(3) [unfolded b]] obtain a t where
    a: "dict_get b ''attributes'' (JObj []) = JObj a" and
    t: "dict_get b ''block_types'' (JObj []) = JObj t" and
    wa: "\<forall>(n, s) \<in> set (sorted_items a). wf_attribute s" and
    wt: "\<forall>(n, s) \<in> set (sorted_items t). wf_block_type s"
    by blast
  have "\<exists>ls. collect (member_results wd ro (lvl + 1) (sorted_items a) (sorted_items t)) = Inr ls"
    using wa wt format_block_type_wf by (intro member_results_wf) auto
  then obtain body where
    "collect (member_results wd ro (lvl + 1) (sorted_items a) (sorted_items t)) = Inr body"
    by blast
  from generate_Inr_I [OF assms(1) [unfolded b] ne a t this] show ?thesis by blast
qed

lemma get_schema_block_unknown:
  assumes "map_of (resources p) name = None" and "map_of (data_sources p) name = None"
  shows "get_schema_block p name = Inr JNull"
  using assms by (simp add: get_schema_block_def)

subsection \<open>The lines of a template\<close>

lemma py_split_nonempty: "py_split c s \<noteq> []"
  by (induction s) (auto split: list.splits)

lemma py_split_sep: "py_split c (a @ c # b) = py_split c a @ py_split c b"
proof (induction a)
  case Nil
  show ?case by simp
next
  case (Cons x a)
  obtain w ws where "py_split c a = w # ws"
    using py_split_nonempty [of c a] by (cases "py_split c a") auto
  with Cons show ?case by simp
qed

lemma py_split_join:
  "xs \<noteq> [] \<Longrightarrow> py_split c (py_join [c] xs) = concat (map (py_split c) xs)"
  by (induction "[c]" xs rule: py_join.induct) (simp_all add: py_split_sep)

lemma subseq_concat_map:
  "subseq xs ys \<Longrightarrow> subseq (concat (map f xs)) (concat (map f ys))"
  by (induction rule: list_emb.induct) (auto intro: list_emb_append2 list_emb_append_mono)

lemma generate_required_only:
  assumes "generate_hcl_template p name wd False lvl = Inr full"
  shows "\<exists>req. generate_hcl_template p name wd True lvl = Inr req
           \<and> subseq (py_split CHR ''\<newline>'' req) (py_split CHR ''\<newline>'' full)"
proof -
  from generate_Inr_D [OF assms] obtain b a t body where
    blk: "get_schema_block p name = Inr (JObj b)" "b \<noteq> []"
      "dict_get b ''attributes'' (JObj []) = JObj a"
      "dict_get b ''block_types'' (JObj []) = JObj t" and
    body: "collect (member_results wd False (lvl + 1) (sorted_items a) (sorted_items t)) = Inr body"
    and full: "full = py_join ''\<newline>'' (entry_header p name # body @ [py_repeat ''}'' (lvl + 1)])"
    by blast
  have "res_sub (collect (member_results wd True (lvl + 1) (sorted_items a) (sorted_items t)))
          (collect (member_results wd False (lvl + 1) (sorted_items a) (sorted_items t)))"
    by (intro member_results_required_only format_block_type_required_only)
  with body obtain body' where
    body': "collect (member_results wd True (lvl + 1) (sorted_items a) (sorted_items t)) = Inr body'"
    and sub: "subseq body' body"
    by (auto simp: res_sub_def)
  let ?req = "py_join ''\<newline>'' (entry_header p name # body' @ [py_repeat ''}'' (lvl + 1)])"
  have req: "generate_hcl_template p name wd True lvl = Inr ?req"
    using blk body' by (rule generate_Inr_I)
  have "subseq (entry_header p name # body' @ [py_repeat ''}'' (lvl + 1)])
          (entry_header p name # body @ [py_repeat ''}'' (lvl + 1)])"
    using sub by (simp add: list_emb_append_mono)
  then have "subseq (py_split CHR ''\<newline>'' ?req) (py_split CHR ''\<newline>'' full)"
    unfolding full by (simp only: py_split_join list.distinct not_False_eq_True subseq_concat_map)
  with req show ?thesis by blast
qed

subsection \<open>Repeatable blocks and unknown modes\<close>

lemma members_shape_ok_iff: "members_shape_ok kvs \<longleftrightarrow> (\<exists>m. sub_members kvs = Inr m)"
  by (auto simp: members_shape_ok_def sub_members_def split: json.splits)


subsection \<open>Sorted items and the order of the source\<close>

lemma sorted_items_keys:
  "sorted (map fst (sorted_items kvs))"
  "set (sorted_items kvs) = set kvs"
  "distinct (map fst (sorted_items kvs)) \<longleftrightarrow> distinct (map fst kvs)"
  by (simp_all add: sorted_items_def distinct_map)

lemma sorted_items_strict:
  "distinct (map fst kvs) \<Longrightarrow> sorted_wrt (<) (map fst (sorted_items kvs))"
  by (simp add: strict_sorted_iff sorted_items_keys)

lemma sorted_items_related:
  assumes "distinct (map fst xs)" and "distinct (map fst ys)"
    and "fst ` set xs = fst ` set ys"
    and "\<And>n v w. (n, v) \<in> set xs \<Longrightarrow> (n, w) \<in> set ys \<Longrightarrow> R v w"
  shows "list_all2 (\<lambda>x y. fst x = fst y \<and> R (snd x) (snd y)) (sorted_items xs) (sorted_items ys)"
proof -
  have keys: "map fst (sorted_items xs) = map fst (sorted_items ys)"
    using assms(1-3)
    by (intro sorted_distinct_set_unique) (simp_all add: sorted_items_keys)
  then have len: "length (sorted_items xs) = length (sorted_items ys)"
    by (rule map_eq_imp_length_eq)
  show ?thesis
  proof (rule list_all2_all_nthI [OF len])
    fix i
    assume i: "i < length (sorted_items xs)"
    let ?x = "sorted_items xs ! i" and ?y = "sorted_items ys ! i"
    from keys i len have k: "fst ?x = fst ?y"
      by (metis nth_map)
    from i have "?x \<in> set xs" by (metis nth_mem sorted_items_keys(2))
    then have x: "(fst ?x, snd ?x) \<in> set xs" by simp
    from i len have "?y \<in> set ys" by (metis nth_mem sorted_items_keys(2))
    then have "(fst ?y, snd ?y) \<in> set ys" by simp
    then have y: "(fst ?x, snd ?y) \<in> set ys" by (simp only: k)
    from x y have "R (snd ?x) (snd ?y)" by (rule assms(4))
    with k show "fst ?x = fst ?y \<and> R (snd ?x) (snd ?y)" by simp
  qed
qed

lemma sorted_items_perm:
  assumes "distinct (map fst xs)" and "distinct (map fst ys)" and "set xs = set ys"
  shows "sorted_items xs = sorted_items ys"
proof -
  have "v = w" if "(n, v) \<in> set xs" "(n, w) \<in> set ys" for n v w
    using that assms(1,3) by (metis eq_key_imp_eq_value)
  with assms have "list_all2 (\<lambda>x y. fst x = fst y \<and> snd x = snd y)
      (sorted_items xs) (sorted_items ys)"
    by (intro sorted_items_related) auto
  then have "list_all2 (=) (sorted_items xs) (sorted_items ys)"
    by (rule list_all2_mono) (simp add: prod_eq_iff)
  then show ?thesis by (simp add: list_all2_eq)
qed

lemma dict_get_same:
  assumes "\<forall>k. k \<noteq> ''block'' \<longrightarrow> map_of kvs k = map_of kvs' k" and "k \<noteq> ''block''"
  shows "dict_get kvs k d = dict_get kvs' k d"
  using assms by (simp add: dict_get_def)

lemma render_mode_same:
  assumes "\<forall>k. k \<noteq> ''block'' \<longrightarrow> map_of kvs k = map_of kvs' k"
  shows "render_mode name kvs d lvl m1 m2 = render_mode name kvs' d lvl m1 m2"
proof -
  note same = dict_get_same [OF assms]
  have e: "dict_get kvs ''nesting_mode'' (JStr ''single'') = dict_get kvs' ''nesting_mode'' (JStr ''single'')"
    "dict_get kvs ''min_items'' (JInt 0) = dict_get kvs' ''min_items'' (JInt 0)"
    "dict_get kvs ''max_items'' JNull = dict_get kvs' ''max_items'' JNull"
    by (simp_all add: same)
  show ?thesis
    unfolding render_mode_def block_comment_lines_def repeat_comment_def e by (rule refl)
qed

lemma get_description_same:
  assumes "\<forall>k. k \<noteq> ''block'' \<longrightarrow> map_of kvs k = map_of kvs' k"
  shows "get_description kvs wd = get_description kvs' wd"
proof -
  have "dict_get kvs ''description'' (JStr []) = dict_get kvs' ''description'' (JStr [])"
    by (simp add: dict_get_same [OF assms])
  then show ?thesis by (simp add: get_description_def)
qed

lemma same_schema_render:
  shows "same_block blk blk' \<Longrightarrow>
           \<exists>b b' a a' t t'.
             blk = JObj b \<and> blk' = JObj b' \<and> (b = [] \<longleftrightarrow> b' = [])
             \<and> dict_get b ''attributes'' (JObj []) = JObj a
             \<and> dict_get b' ''attributes'' (JObj []) = JObj a'
             \<and> dict_get b ''block_types'' (JObj []) = JObj t
             \<and> dict_get b' ''block_types'' (JObj []) = JObj t'
             \<and> sorted_items a = sorted_items a'
             \<and> (\<forall>wd lvl ro.
                    map (\<lambda>(n, s). format_block_type n s wd lvl ro) (sorted_items t) =
                    map (\<lambda>(n, s). format_block_type n s wd lvl ro) (sorted_items t'))"
    and "same_block_type s s' \<Longrightarrow>
           \<forall>name wd lvl ro. format_block_type name s wd lvl ro = format_block_type name s' wd lvl ro"
proof (induction rule: same_block_same_block_type.inducts)
  case (same_blockI b b' a a' t t')
  have a: "sorted_items a = sorted_items a'"
    using same_blockI by (intro sorted_items_perm)
  have "list_all2 (\<lambda>x y. fst x = fst y \<and>
           (\<forall>name wd lvl ro. format_block_type name (snd x) wd lvl ro
                              = format_block_type name (snd y) wd lvl ro))
          (sorted_items t) (sorted_items t')"
    using same_blockI by (intro sorted_items_related) auto
  then have "map (\<lambda>(n, s). format_block_type n s wd lvl ro) (sorted_items t) =
               map (\<lambda>(n, s). format_block_type n s wd lvl ro) (sorted_items t')" for wd lvl ro
    by (induction rule: list_all2_induct) (auto simp: case_prod_beta)
  with a same_blockI show ?case by blast
next
  case (same_block_typeI kvs kvs')
  then obtain b b' a a' t t' where
    b: "dict_get kvs ''block'' (JObj []) = JObj b" "dict_get kvs' ''block'' (JObj []) = JObj b'"
    and a: "dict_get b ''attributes'' (JObj []) = JObj a"
      "dict_get b' ''attributes'' (JObj []) = JObj a'"
    and t: "dict_get b ''block_types'' (JObj []) = JObj t"
      "dict_get b' ''block_types'' (JObj []) = JObj t'"
    and sa: "sorted_items a = sorted_items a'"
    and st: "\<And>wd lvl ro.
                    map (\<lambda>(n, s). format_block_type n s wd lvl ro) (sorted_items t) =
                    map (\<lambda>(n, s). format_block_type n s wd lvl ro) (sorted_items t')"
    by blast
  have m: "sub_members kvs = Inr (sorted_items a, sorted_items t)"
    "sub_members kvs' = Inr (sorted_items a', sorted_items t')"
    using b a t by (simp_all add: sub_members_def)
  have mr: "member_results wd ro lvl (sorted_items a) (sorted_items t) =
            member_results wd ro lvl (sorted_items a') (sorted_items t')" for wd ro lvl
    using sa st by (simp add: member_results_def)
  note same = same_block_typeI.hyps(1)
  have e: "dict_get kvs ''min_items'' (JInt 0) = dict_get kvs' ''min_items'' (JInt 0)"
    by (simp add: dict_get_same [OF same])
  show ?case
    unfolding format_block_type_obj m e get_description_same [OF same]
      render_mode_same [OF same] sum.case prod.case mr
    by simp
qed

lemma same_block_generate:
  assumes "same_block blk blk'"
    and "get_schema_block p name = Inr blk" and "get_schema_block p' name = Inr blk'"
    and "map_of (resources p) name = None \<longleftrightarrow> map_of (resources p') name = None"
  shows "generate_hcl_template p name wd ro lvl = generate_hcl_template p' name wd ro lvl"
proof -
  from same_schema_render(1) [OF assms(1)] obtain b b' a a' t t' where
    b: "blk = JObj b" "blk' = JObj b'" "b = [] \<longleftrightarrow> b' = []"
    and a: "dict_get b ''attributes'' (JObj []) = JObj a"
      "dict_get b' ''attributes'' (JObj []) = JObj a'"
    and t: "dict_get b ''block_types'' (JObj []) = JObj t"
      "dict_get b' ''block_types'' (JObj []) = JObj t'"
    and sa: "sorted_items a = sorted_items a'"
    and st: "\<And>wd lvl ro.
                    map (\<lambda>(n, s). format_block_type n s wd lvl ro) (sorted_items t) =
                    map (\<lambda>(n, s). format_block_type n s wd lvl ro) (sorted_items t')"
    by blast
  have h: "entry_header p name = entry_header p' name"
    using assms(4) by (simp add: entry_header_def)
  show ?thesis
  proof (cases "b = []")
    case True
    with b assms(2,3) show ?thesis by (simp add: generate_falsy)
  next
    case False
    with b have ne: "b \<noteq> []" "b' \<noteq> []" by simp_all
    show ?thesis
      unfolding generate_obj [OF assms(2) [unfolded b] ne(1)]
        generate_obj [OF assms(3) [unfolded b] ne(2)] a t json.case sa st h
      by (rule refl)
  qed
qed

lemma generate_Inr_members:
  assumes "generate_hcl_template p name wd ro lvl = Inr out"
  shows "\<exists>b a t attr_lines bt_lines.
           get_schema_block p name = Inr (JObj b)
           \<and> dict_get b ''attributes'' (JObj []) = JObj a
           \<and> dict_get b ''block_types'' (JObj []) = JObj t
           \<and> collect (map (\<lambda>(n, s). format_attribute n s wd (lvl + 1) ro) (sorted_items a))
               = Inr attr_lines
           \<and> collect (map (\<lambda>(n, s). format_block_type n s wd (lvl + 1) ro) (sorted_items t))
               = Inr bt_lines
           \<and> out = py_join ''\<newline>''
                     (entry_header p name # attr_lines @ bt_lines @ [py_repeat ''}'' (lvl + 1)])"
proof -
  from generate_Inr_D [OF assms] obtain b a t body where
    blk: "get_schema_block p name = Inr (JObj b)"
      "dict_get b ''attributes'' (JObj []) = JObj a"
      "dict_get b ''block_types'' (JObj []) = JObj t" and
    body: "collect (member_results wd ro (lvl + 1) (sorted_items a) (sorted_items t)) = Inr body"
    and out: "out = py_join ''\<newline>'' (entry_header p name # body @ [py_repeat ''}'' (lvl + 1)])"
    by blast
  from body obtain al bl where
    "collect (map (\<lambda>(n, s). format_attribute n s wd (lvl + 1) ro) (sorted_items a)) = Inr al"
    "collect (map (\<lambda>(n, s). format_block_type n s wd (lvl + 1) ro) (sorted_items t)) = Inr bl"
    "body = al @ bl"
    by (auto simp: member_results_def collect_append split: sum.splits)
  with blk out show ?thesis by auto
qed

lemma sub_members_sorted:
  assumes "sub_members kvs = Inr (sa, st)"
  shows "\<exists>b a t. dict_get kvs ''block'' (JObj []) = JObj b
           \<and> dict_get b ''attributes'' (JObj []) = JObj a
           \<and> dict_get b ''block_types'' (JObj []) = JObj t
           \<and> sa = sorted_items a \<and> st = sorted_items t"
  using assms by (auto simp: sub_members_def split: json.splits)

subsection \<open>Resource entries and repeated instances\<close>

lemma resource_block_rendered:
  assumes "map_of (resources p) name = Some entry"
    and "generate_hcl_template p name wd ro lvl = Inr out"
  shows "\<exists>b a t attr_lines bt_lines.
           entry_block entry = Inr (JObj b)
           \<and> dict_get b ''attributes'' (JObj []) = JObj a
           \<and> dict_get b ''block_types'' (JObj []) = JObj t
           \<and> collect (map (\<lambda>(n, s). format_attribute n s wd (lvl + 1) ro) (sorted_items a))
               = Inr attr_lines
           \<and> collect (map (\<lambda>(n, s). format_block_type n s wd (lvl + 1) ro) (sorted_items t))
               = Inr bt_lines
           \<and> out = py_join ''\<newline>''
                     ((''resource '' @ [CHR 0x22] @ name @ [CHR 0x22] @ '' ''
                        @ [CHR 0x22] @ ''example'' @ [CHR 0x22] @ '' {'')
                      # attr_lines @ bt_lines @ [py_repeat ''}'' (lvl + 1)])"
proof -
  have g: "get_schema_block p name = entry_block entry"
    using assms(1) by (simp add: get_schema_block_def)
  have h: "entry_header p name = ''resource '' @ [CHR 0x22] @ name @ [CHR 0x22] @ '' ''
                        @ [CHR 0x22] @ ''example'' @ [CHR 0x22] @ '' {''"
    using assms(1) by (simp add: entry_header_def)
  from generate_Inr_members [OF assms(2)] show ?thesis
    unfolding g h by blast
qed

lemma resource_alone:
  assumes "map_of (resources p) name = Some entry"
  shows "generate_hcl_template p name wd ro lvl =
         generate_hcl_template \<lparr>resources = [(name, entry)], data_sources = []\<rparr> name wd ro lvl"
proof -
  have "get_schema_block p name =
        get_schema_block \<lparr>resources = [(name, entry)], data_sources = []\<rparr> name"
    using assms by (simp add: get_schema_block_def)
  moreover have "(map_of (resources p) name \<noteq> None) =
     (map_of (resources \<lparr>resources = [(name, entry)], data_sources = []\<rparr>) name \<noteq> None)"
    using assms by simp
  ultimately show ?thesis
    unfolding generate_hcl_template_def by (simp only:)
qed



section \<open>Properties\<close>

subsection \<open>The scenario of the example widget\<close>

text \<open>
  C1 (as the code has it). For the resource entry \<open>example_widget\<close> whose root block
  has the one attribute \<open>display_name\<close>, a required string without default, the
  template is the header line \<^verbatim>\<open>resource "example_widget" "example" {\<close>, one
  assignment line and the closing brace, for both flags. The name ends in \<open>_name\<close>, so
  the assignment is the cross-reference \<^verbatim>\<open>azurerm_display.example.name\<close>, annotated as
  required with type string; it is not the empty string literal.
\<close>

theorem example_widget_template:
  assumes "map_of (resources p) ''example_widget'' = Some (JObj entry)"
    and "dict_get entry ''block'' (JObj []) =
           JObj [(''attributes'',
             JObj [(''display_name'',
               JObj [(''type'', JStr ''string''), (''required'', JBool True)])])]"
  shows \<open>generate_hcl_template p ''example_widget'' with_descriptions required_only 0 =
           Inr (py_join ''\<newline>''
             [''resource "example_widget" "example" {'',
              ''  display_name = azurerm_display.example.name  # required, type: string'',
              ''}''])\<close>
  using assms
  by (simp add: generate_hcl_template_def get_schema_block_def entry_block_def dict_get_def
      sorted_items_def get_description_def has_description_def py_strip_def
      attribute_comment_def get_placeholder_def py_endswith_def py_drop_last_def py_repeat_def)

text \<open>The theorem at the entry of the scenario.\<close>

theorem example_widget_template_witness:
  \<open>map_of (resources widget_parser) ''example_widget'' =
     Some (JObj [(''block'',
       JObj [(''attributes'',
         JObj [(''display_name'',
           JObj [(''type'', JStr ''string''), (''required'', JBool True)])])])])
   \<and> generate_hcl_template widget_parser ''example_widget'' True False 0 =
       Inr (py_join ''\<newline>''
         [''resource "example_widget" "example" {'',
          ''  display_name = azurerm_display.example.name  # required, type: string'',
          ''}''])\<close>
  using example_widget_template [of widget_parser
      "[(''block'', JObj [(''attributes'', JObj [(''display_name'',
           JObj [(''type'', JStr ''string''), (''required'', JBool True)])])])]" True False]
  by (simp add: widget_parser_def dict_get_def)

text \<open>
  C1 as stated fails: the lines of the rendered scenario entry. None assigns
  \<^verbatim>\<open>display_name = ""\<close>.
\<close>

theorem example_widget_counterexample:
  \<open>output_lines (generate_hcl_template widget_parser ''example_widget'' True False 0)
   = [''resource "example_widget" "example" {'',
      ''  display_name = azurerm_display.example.name  # required, type: string'',
      ''}'']\<close>
  by code_simp

subsection \<open>Placeholder priority\<close>

text \<open>
  C4. A default that is not \<^verbatim>\<open>None\<close> is printed by \<^verbatim>\<open>json.dumps\<close>, whatever the
  name and the type. Without default, a name ending in \<open>_name\<close> gives the name
  cross-reference and otherwise a name ending in \<open>_id\<close> gives the id cross-reference,
  whatever the type. Only when neither suffix matches does the type decide: the result is
  the one of a call without name. An attribute that declares a default and renders to
  lines has the assignment of the \<^verbatim>\<open>json.dumps\<close> literal in its last line, whatever its
  name.
\<close>

theorem placeholder_priority:
  "(dflt \<noteq> JNull \<longrightarrow> get_placeholder type_sig attr_name dflt = json_dumps dflt)
   \<and> (py_endswith n ''_name'' \<longrightarrow>
        get_placeholder type_sig (Some n) JNull =
          ''azurerm_'' @ py_drop_last 5 n @ ''.example.name'')
   \<and> (\<not> py_endswith n ''_name'' \<and> py_endswith n ''_id'' \<longrightarrow>
        get_placeholder type_sig (Some n) JNull =
          ''azurerm_'' @ py_drop_last 3 n @ ''.example.id'')
   \<and> (\<not> py_endswith n ''_name'' \<and> \<not> py_endswith n ''_id'' \<longrightarrow>
        get_placeholder type_sig (Some n) JNull = get_placeholder type_sig None JNull)
   \<and> (\<forall>ls. dict_get kvs ''default'' JNull \<noteq> JNull
          \<and> format_attribute n (JObj kvs) with_descriptions indent_level required_only = Inr ls
          \<and> ls \<noteq> [] \<longrightarrow>
          prefix (py_repeat ''  '' indent_level @ n @ '' = ''
                  @ json_dumps (dict_get kvs ''default'' JNull)) (last ls))"
proof -
  have "(dflt \<noteq> JNull \<longrightarrow> get_placeholder type_sig attr_name dflt = json_dumps dflt)
   \<and> (py_endswith n ''_name'' \<longrightarrow>
        get_placeholder type_sig (Some n) JNull =
          ''azurerm_'' @ py_drop_last 5 n @ ''.example.name'')
   \<and> (\<not> py_endswith n ''_name'' \<and> py_endswith n ''_id'' \<longrightarrow>
        get_placeholder type_sig (Some n) JNull =
          ''azurerm_'' @ py_drop_last 3 n @ ''.example.id'')
   \<and> (\<not> py_endswith n ''_name'' \<and> \<not> py_endswith n ''_id'' \<longrightarrow>
        get_placeholder type_sig (Some n) JNull = get_placeholder type_sig None JNull)"
    by (auto simp: get_placeholder_def py_endswith_def)
  with format_attribute_default show ?thesis by blast
qed

text \<open>
  The rules at concrete attributes: \<open>parent_id\<close> with the default 5, \<open>owner_name\<close> and
  \<open>parent_id\<close> without default, \<open>size\<close> of type string, and the rendering of the
  optional attribute \<open>parent_id\<close> with the default \<open>root\<close>.
\<close>

theorem placeholder_priority_witness:
  \<open>JInt 5 \<noteq> JNull
   \<and> get_placeholder ''string'' (Some ''parent_id'') (JInt 5) = json_dumps (JInt 5)
   \<and> py_endswith ''owner_name'' ''_name''
   \<and> get_placeholder ''string'' (Some ''owner_name'') JNull = ''azurerm_owner.example.name''
   \<and> \<not> py_endswith ''parent_id'' ''_name'' \<and> py_endswith ''parent_id'' ''_id''
   \<and> get_placeholder ''string'' (Some ''parent_id'') JNull = ''azurerm_parent.example.id''
   \<and> \<not> py_endswith ''size'' ''_name'' \<and> \<not> py_endswith ''size'' ''_id''
   \<and> get_placeholder ''string'' (Some ''size'') JNull = get_placeholder ''string'' None JNull
   \<and> dict_get parent_attribute ''default'' JNull \<noteq> JNull
   \<and> format_attribute ''parent_id'' (JObj parent_attribute) True 1 False =
       Inr [''  parent_id = "root"  # optional, type: string, default: root'']
   \<and> prefix ''  parent_id = "root"''
        (last [''  parent_id = "root"  # optional, type: string, default: root''])\<close>
proof -
  have a: "dict_get parent_attribute ''default'' JNull \<noteq> JNull"
    by code_simp
  have b: \<open>format_attribute ''parent_id'' (JObj parent_attribute) True 1 False =
       Inr [''  parent_id = "root"  # optional, type: string, default: root'']\<close>
    by code_simp
  have c: \<open>py_repeat ''  '' 1 @ ''parent_id'' @ '' = ''
             @ json_dumps (dict_get parent_attribute ''default'' JNull)
           = ''  parent_id = "root"''\<close>
    by code_simp
  from placeholder_priority [of "JInt 5" "''string''" "Some ''parent_id''" "''parent_id''"
      parent_attribute True 1 False] a b c
  have d: \<open>prefix ''  parent_id = "root"''
        (last [''  parent_id = "root"  # optional, type: string, default: root''])\<close>
    by (metis list.distinct(1))
  from placeholder_priority [of "JInt 5" "''string''" "Some ''parent_id''" "''owner_name''"]
    placeholder_priority [of "JInt 5" "''string''" "Some ''parent_id''" "''parent_id''"]
    placeholder_priority [of "JInt 5" "''string''" "Some ''parent_id''" "''size''"]
  have \<open>JInt 5 \<noteq> JNull
   \<and> get_placeholder ''string'' (Some ''parent_id'') (JInt 5) = json_dumps (JInt 5)
   \<and> py_endswith ''owner_name'' ''_name''
   \<and> get_placeholder ''string'' (Some ''owner_name'') JNull = ''azurerm_owner.example.name''
   \<and> \<not> py_endswith ''parent_id'' ''_name'' \<and> py_endswith ''parent_id'' ''_id''
   \<and> get_placeholder ''string'' (Some ''parent_id'') JNull = ''azurerm_parent.example.id''
   \<and> \<not> py_endswith ''size'' ''_name'' \<and> \<not> py_endswith ''size'' ''_id''
   \<and> get_placeholder ''string'' (Some ''size'') JNull = get_placeholder ''string'' None JNull\<close>
    by (simp add: py_endswith_def py_drop_last_def)
  with a b d show ?thesis by blast
qed

subsection \<open>The type resolver\<close>

text \<open>
  C5. The resolver is meant to answer every type expression, with \<open>unknown\<close> for a
  shape it does not recognise, and it does so on \<^verbatim>\<open>None\<close>, on a dict and on a list
  with an unknown tag. On the empty list and on a list that holds only the tag
  \<open>list\<close> it raises IndexError instead, for want of a test of the length, and the
  rendering of an entry with such an attribute type raises it too.
\<close>

theorem parse_type_raises_on_short_list:
  "parse_type (JArr []) = Inl IndexError
   \<and> parse_type (JArr [JStr ''list'']) = Inl IndexError
   \<and> parse_type (JArr [JStr ''group'']) = Inr ''unknown''
   \<and> parse_type (JObj []) = Inr ''unknown''
   \<and> parse_type JNull = Inr ''unknown''
   \<and> generate_hcl_template broken_type_parser ''broken'' True False 0 = Inl IndexError"
  by code_simp

subsection \<open>A name in both categories\<close>

text \<open>
  C9. A name that is a key of the resource dict is resolved there. The block is the one
  of the resource entry; the result is the one of a provider that holds this resource
  entry and nothing else, so the data sources have no influence on it. A rendered
  template is the header with the keyword \<open>resource\<close> and the name, the lines of the
  sorted attributes and of the sorted block-types of the resource entry's block, and
  the closing brace.
\<close>

theorem resource_takes_precedence:
  assumes "map_of (resources p) name = Some entry"
  shows "get_schema_block p name = entry_block entry
    \<and> generate_hcl_template p name with_descriptions required_only indent_level =
        generate_hcl_template (p\<lparr>data_sources := ds\<rparr>) name with_descriptions required_only
          indent_level
    \<and> generate_hcl_template p name with_descriptions required_only indent_level =
        generate_hcl_template \<lparr>resources = [(name, entry)], data_sources = []\<rparr> name
          with_descriptions required_only indent_level
    \<and> (\<forall>out. generate_hcl_template p name with_descriptions required_only indent_level = Inr out
         \<longrightarrow> prefix (''resource '' @ [CHR 0x22] @ name @ [CHR 0x22] @ '' ''
                      @ [CHR 0x22] @ ''example'' @ [CHR 0x22] @ '' {'') out
             \<and> (\<exists>b a t attr_lines bt_lines.
                   entry_block entry = Inr (JObj b)
                   \<and> dict_get b ''attributes'' (JObj []) = JObj a
                   \<and> dict_get b ''block_types'' (JObj []) = JObj t
                   \<and> collect (map (\<lambda>(n, s). format_attribute n s with_descriptions
                                              (indent_level + 1) required_only) (sorted_items a))
                       = Inr attr_lines
                   \<and> collect (map (\<lambda>(n, s). format_block_type n s with_descriptions
                                              (indent_level + 1) required_only) (sorted_items t))
                       = Inr bt_lines
                   \<and> out = py_join ''\<newline>''
                             ((''resource '' @ [CHR 0x22] @ name @ [CHR 0x22] @ '' ''
                                @ [CHR 0x22] @ ''example'' @ [CHR 0x22] @ '' {'')
                              # attr_lines @ bt_lines
                              @ [py_repeat ''}'' (indent_level + 1)])))"
proof -
  have "get_schema_block p name = entry_block entry"
    using assms by (simp add: get_schema_block_def)
  moreover have "generate_hcl_template p name with_descriptions required_only indent_level =
        generate_hcl_template (p\<lparr>data_sources := ds\<rparr>) name with_descriptions required_only
          indent_level"
  proof -
    have "get_schema_block (p\<lparr>data_sources := ds\<rparr>) name = get_schema_block p name"
      using assms by (simp add: get_schema_block_def)
    moreover have "resources (p\<lparr>data_sources := ds\<rparr>) = resources p" by simp
    ultimately show ?thesis
      unfolding generate_hcl_template_def by (simp only:)
  qed
  moreover have "generate_hcl_template p name with_descriptions required_only indent_level =
        generate_hcl_template \<lparr>resources = [(name, entry)], data_sources = []\<rparr> name
          with_descriptions required_only indent_level"
    using assms by (rule resource_alone)
  moreover have "prefix (''resource '' @ [CHR 0x22] @ name @ [CHR 0x22] @ '' ''
                      @ [CHR 0x22] @ ''example'' @ [CHR 0x22] @ '' {'') out
             \<and> (\<exists>b a t attr_lines bt_lines.
                   entry_block entry = Inr (JObj b)
                   \<and> dict_get b ''attributes'' (JObj []) = JObj a
                   \<and> dict_get b ''block_types'' (JObj []) = JObj t
                   \<and> collect (map (\<lambda>(n, s). format_attribute n s with_descriptions
                                              (indent_level + 1) required_only) (sorted_items a))
                       = Inr attr_lines
                   \<and> collect (map (\<lambda>(n, s). format_block_type n s with_descriptions
                                              (indent_level + 1) required_only) (sorted_items t))
                       = Inr bt_lines
                   \<and> out = py_join ''\<newline>''
                             ((''resource '' @ [CHR 0x22] @ name @ [CHR 0x22] @ '' ''
                                @ [CHR 0x22] @ ''example'' @ [CHR 0x22] @ '' {'')
                              # attr_lines @ bt_lines
                              @ [py_repeat ''}'' (indent_level + 1)]))"
    if "generate_hcl_template p name with_descriptions required_only indent_level = Inr out"
    for out
  proof -
    note r = resource_block_rendered [OF assms that]
    then obtain rest where "out = py_join ''\<newline>''
        ((''resource '' @ [CHR 0x22] @ name @ [CHR 0x22] @ '' ''
            @ [CHR 0x22] @ ''example'' @ [CHR 0x22] @ '' {'') # rest)"
      by blast
    then have "prefix (''resource '' @ [CHR 0x22] @ name @ [CHR 0x22] @ '' ''
                      @ [CHR 0x22] @ ''example'' @ [CHR 0x22] @ '' {'') out"
      by (simp only: prefix_py_join_head)
    with r show ?thesis by blast
  qed
  ultimately show ?thesis by blast
qed

text \<open>
  The theorem at a provider whose resource \<open>twin\<close> has the attribute \<open>size\<close> and whose data
  source \<open>twin\<close> has the attribute \<open>flag\<close>: the template is the one of the resource.
\<close>

theorem resource_takes_precedence_witness:
  \<open>map_of (resources twin_parser) ''twin'' = Some twin_entry
   \<and> map_of (data_sources twin_parser) ''twin'' \<noteq> None
   \<and> get_schema_block twin_parser ''twin'' = entry_block twin_entry
   \<and> generate_hcl_template twin_parser ''twin'' True False 0 = Inr twin_template
   \<and> generate_hcl_template twin_parser ''twin'' True False 0 =
       generate_hcl_template (twin_parser\<lparr>data_sources := []\<rparr>) ''twin'' True False 0
   \<and> generate_hcl_template twin_parser ''twin'' True False 0 =
       generate_hcl_template \<lparr>resources = [(''twin'', twin_entry)], data_sources = []\<rparr>
         ''twin'' True False 0
   \<and> prefix ''resource "twin" "example" {'' twin_template
   \<and> (\<exists>b a t attr_lines bt_lines.
         entry_block twin_entry = Inr (JObj b)
         \<and> dict_get b ''attributes'' (JObj []) = JObj a
         \<and> dict_get b ''block_types'' (JObj []) = JObj t
         \<and> collect (map (\<lambda>(n, s). format_attribute n s True (0 + 1) False) (sorted_items a))
             = Inr attr_lines
         \<and> collect (map (\<lambda>(n, s). format_block_type n s True (0 + 1) False) (sorted_items t))
             = Inr bt_lines
         \<and> twin_template
           = py_join ''\<newline>''
               (''resource "twin" "example" {'' # attr_lines @ bt_lines
                @ [py_repeat ''}'' (0 + 1)]))\<close>
proof -
  have h: "map_of (resources twin_parser) ''twin'' = Some twin_entry"
    by (simp add: twin_parser_def twin_entry_def)
  have d: "map_of (data_sources twin_parser) ''twin'' \<noteq> None"
    by (simp add: twin_parser_def)
  have g: "generate_hcl_template twin_parser ''twin'' True False 0 = Inr twin_template"
    by code_simp
  have hd: \<open>''resource '' @ [CHR 0x22] @ ''twin'' @ [CHR 0x22] @ '' ''
              @ [CHR 0x22] @ ''example'' @ [CHR 0x22] @ '' {'' = ''resource "twin" "example" {''\<close>
    by simp
  note inst = resource_takes_precedence [OF h, of True False 0 "[]", unfolded hd]
  from inst g h d show ?thesis by blast
qed

subsection \<open>Unknown names and empty blocks\<close>

text \<open>
  C2 (as the code has it). The entry point raises the ValueError exactly when the block
  it resolved is falsy: the name is in neither category, or the entry has no block, an
  empty one or \<^verbatim>\<open>null\<close>. An unknown name always raises it, with the name in the
  message. When the resolved block is not empty and has the shape of the data model, the
  call returns a string. A call is one or the other: the result is a sum.
\<close>

theorem not_found_iff_no_block:
  "((\<exists>m. generate_hcl_template p name with_descriptions required_only indent_level
            = Inl (ValueError m))
      \<longleftrightarrow> (\<exists>block. get_schema_block p name = Inr block \<and> \<not> py_truthy block))
   \<and> (map_of (resources p) name = None \<and> map_of (data_sources p) name = None \<longrightarrow>
        generate_hcl_template p name with_descriptions required_only indent_level
          = Inl (ValueError (''No schema found for '' @ name)))
   \<and> ((\<exists>block. get_schema_block p name = Inr block \<and> py_truthy block \<and> wf_block block) \<longrightarrow>
        (\<exists>out. generate_hcl_template p name with_descriptions required_only indent_level
                 = Inr out))"
  using generate_ValueError_iff [of p name with_descriptions required_only indent_level]
    generate_falsy [of p name JNull with_descriptions required_only indent_level]
    get_schema_block_unknown [of p name]
    generate_wf [of p name _ with_descriptions required_only indent_level]
  by (metis py_truthy.simps(1))

text \<open>
  The theorem at the widget provider: \<open>gadget\<close> is unknown, \<open>example_widget\<close> has a
  well-shaped block that is not empty.
\<close>

theorem not_found_iff_no_block_witness:
  "map_of (resources widget_parser) ''gadget'' = None
   \<and> map_of (data_sources widget_parser) ''gadget'' = None
   \<and> generate_hcl_template widget_parser ''gadget'' True False 0
       = Inl (ValueError ''No schema found for gadget'')
   \<and> get_schema_block widget_parser ''example_widget'' =
        Inr (JObj [(''attributes'',
              JObj [(''display_name'',
                JObj [(''type'', JStr ''string''), (''required'', JBool True)])])])
   \<and> py_truthy (JObj [(''attributes'',
              JObj [(''display_name'',
                JObj [(''type'', JStr ''string''), (''required'', JBool True)])])])
   \<and> wf_block (JObj [(''attributes'',
              JObj [(''display_name'',
                JObj [(''type'', JStr ''string''), (''required'', JBool True)])])])
   \<and> (\<exists>out. generate_hcl_template widget_parser ''example_widget'' True False 0 = Inr out)"
proof -
  have a: "map_of (resources widget_parser) ''gadget'' = None
   \<and> map_of (data_sources widget_parser) ''gadget'' = None"
    by code_simp
  have b: "get_schema_block widget_parser ''example_widget'' =
        Inr (JObj [(''attributes'',
              JObj [(''display_name'',
                JObj [(''type'', JStr ''string''), (''required'', JBool True)])])])"
    by code_simp
  have c: "wf_block (JObj [(''attributes'',
              JObj [(''display_name'',
                JObj [(''type'', JStr ''string''), (''required'', JBool True)])])])"
    by code_simp
  from not_found_iff_no_block [of widget_parser "''gadget''" True False 0]
    not_found_iff_no_block [of widget_parser "''example_widget''" True False 0] a b c
  show ?thesis by auto
qed

text \<open>
  C2 as stated fails: \<open>hollow\<close> is a key of the resource dict, and the call raises the
  ValueError all the same, because its block is empty.
\<close>

theorem not_found_counterexample:
  "map_of (resources hollow_parser) ''hollow'' = Some (JObj [(''block'', JObj [])])
   \<and> generate_hcl_template hollow_parser ''hollow'' True False 0
       = Inl (ValueError ''No schema found for hollow'')"
  by code_simp

subsection \<open>The required-only filter\<close>

text \<open>
  C3 (as the code has it). When the full rendering of an entry returns, so does the
  required-only rendering with the same description flag, and its lines are a subsequence
  of the full lines, hence a subset; the inclusion need not be strict. With
  \<open>required_only\<close>, an attribute whose \<open>required\<close> is not true contributes nothing, and a
  block-type whose \<open>min_items\<close> equals 0 contributes nothing.
\<close>

theorem required_only_subset:
  "(\<forall>full. generate_hcl_template p name with_descriptions False indent_level = Inr full \<longrightarrow>
      (\<exists>req. generate_hcl_template p name with_descriptions True indent_level = Inr req
         \<and> subseq (py_split CHR ''\<newline>'' req) (py_split CHR ''\<newline>'' full)
         \<and> set (py_split CHR ''\<newline>'' req) \<subseteq> set (py_split CHR ''\<newline>'' full)))
   \<and> (\<not> py_truthy (dict_get kvs ''required'' (JBool False)) \<longrightarrow>
        format_attribute attr_name (JObj kvs) with_descriptions lvl True = Inr [])
   \<and> (py_eq_zero (dict_get kvs ''min_items'' (JInt 0)) \<longrightarrow>
        format_block_type bt_name (JObj kvs) with_descriptions lvl True = Inr [])"
proof -
  have "\<exists>req. generate_hcl_template p name with_descriptions True indent_level = Inr req
         \<and> subseq (py_split CHR ''\<newline>'' req) (py_split CHR ''\<newline>'' full)
         \<and> set (py_split CHR ''\<newline>'' req) \<subseteq> set (py_split CHR ''\<newline>'' full)"
    if "generate_hcl_template p name with_descriptions False indent_level = Inr full" for full
  proof -
    from generate_required_only [OF that] obtain req where
      req: "generate_hcl_template p name with_descriptions True indent_level = Inr req"
        "subseq (py_split CHR ''\<newline>'' req) (py_split CHR ''\<newline>'' full)"
      by blast
    from req(2) have "set (py_split CHR ''\<newline>'' req) \<subseteq> set (py_split CHR ''\<newline>'' full)"
      by (auto dest: list_emb_set)
    with req show ?thesis by blast
  qed
  moreover have "\<not> py_truthy (dict_get kvs ''required'' (JBool False)) \<longrightarrow>
        format_attribute attr_name (JObj kvs) with_descriptions lvl True = Inr []"
    by simp
  moreover have "py_eq_zero (dict_get kvs ''min_items'' (JInt 0)) \<longrightarrow>
        format_block_type bt_name (JObj kvs) with_descriptions lvl True = Inr []"
    by (simp add: format_block_type_obj)
  ultimately show ?thesis by blast
qed

text \<open>
  The theorem at \<open>mixed\<close>, whose attribute \<open>note\<close> is optional and whose block
  \<open>network_rule\<close> has \<open>min_items = 0\<close>.
\<close>

theorem required_only_subset_witness:
  "generate_hcl_template mixed_parser ''mixed'' False False 0 = Inr mixed_full_template
   \<and> (\<exists>req. generate_hcl_template mixed_parser ''mixed'' False True 0 = Inr req
         \<and> subseq (py_split CHR ''\<newline>'' req) (py_split CHR ''\<newline>'' mixed_full_template)
         \<and> set (py_split CHR ''\<newline>'' req) \<subseteq> set (py_split CHR ''\<newline>'' mixed_full_template))
   \<and> \<not> py_truthy (dict_get [(''type'', JStr ''string''), (''optional'', JBool True)]
                      ''required'' (JBool False))
   \<and> format_attribute ''note'' (JObj [(''type'', JStr ''string''), (''optional'', JBool True)])
        False 1 True = Inr []
   \<and> py_eq_zero (dict_get network_rule_schema ''min_items'' (JInt 0))
   \<and> format_block_type ''network_rule'' (JObj network_rule_schema) False 1 True = Inr []"
proof -
  have full: "generate_hcl_template mixed_parser ''mixed'' False False 0 = Inr mixed_full_template"
    by code_simp
  have a: "\<not> py_truthy (dict_get [(''type'', JStr ''string''), (''optional'', JBool True)]
                      ''required'' (JBool False))"
    by code_simp
  have b: "py_eq_zero (dict_get network_rule_schema ''min_items'' (JInt 0))"
    by code_simp
  note inst = required_only_subset [of mixed_parser "''mixed''" False 0
      "[(''type'', JStr ''string''), (''optional'', JBool True)]" "''note''" 1
      "''network_rule''"]
  note inst' = required_only_subset [of mixed_parser "''mixed''" False 0
      network_rule_schema "''note''" 1 "''network_rule''"]
  from inst full have "\<exists>req. generate_hcl_template mixed_parser ''mixed'' False True 0 = Inr req
         \<and> subseq (py_split CHR ''\<newline>'' req) (py_split CHR ''\<newline>'' mixed_full_template)
         \<and> set (py_split CHR ''\<newline>'' req) \<subseteq> set (py_split CHR ''\<newline>'' mixed_full_template)"
    by blast
  moreover from inst a have "format_attribute ''note''
        (JObj [(''type'', JStr ''string''), (''optional'', JBool True)]) False 1 True = Inr []"
    by blast
  moreover from inst' b have
    "format_block_type ''network_rule'' (JObj network_rule_schema) False 1 True = Inr []"
    by blast
  ultimately show ?thesis using full a b by blast
qed

text \<open>
  C3 as stated fails: every member of the scenario widget is required, the two renderings
  have the same lines, and the inclusion is not strict.
\<close>

theorem required_only_counterexample:
  "\<not> set (output_lines (generate_hcl_template widget_parser ''example_widget'' True True 0))
      \<subset> set (output_lines (generate_hcl_template widget_parser ''example_widget'' True False 0))"
  by code_simp

subsection \<open>Repeatable blocks\<close>




subsection \<open>Deprecated attributes\<close>

text \<open>
  C7. An attribute whose \<open>deprecated\<close> is true never yields a line: whenever its
  rendering returns, for any depth and any flags, it returns no line, and it does return
  when its type and description are well-shaped. In every loop that collects rendered
  members, leaving the attribute out gives the same lines.
\<close>

theorem deprecated_attribute_suppressed:
  assumes "py_truthy (dict_get kvs ''deprecated'' (JBool False))"
  shows "(\<forall>ls. format_attribute name (JObj kvs) with_descriptions indent_level required_only = Inr ls
            \<longrightarrow> ls = [])
       \<and> (type_shape_ok (dict_get kvs ''type'' JNull) \<and> description_ok kvs
            \<longrightarrow> format_attribute name (JObj kvs) with_descriptions indent_level required_only = Inr [])
       \<and> (\<forall>rs rs' out.
             collect (rs @ format_attribute name (JObj kvs) with_descriptions indent_level
                            required_only # rs') = Inr out
            \<longrightarrow> collect (rs @ rs') = Inr out)"
proof -
  have a: "ls = []"
    if "format_attribute name (JObj kvs) with_descriptions indent_level required_only = Inr ls" for ls
    using that assms by (auto split: if_splits sum.splits)
  have b: "format_attribute name (JObj kvs) with_descriptions indent_level required_only = Inr []"
    if "type_shape_ok (dict_get kvs ''type'' JNull) \<and> description_ok kvs"
  proof -
    from that obtain sig d where "parse_type (dict_get kvs ''type'' JNull) = Inr sig"
      and "get_description kvs with_descriptions = Inr d"
      using parse_type_shape get_description_ok by blast
    with assms show ?thesis by simp
  qed
  have c: "collect (rs @ rs') = Inr out"
    if "collect (rs @ format_attribute name (JObj kvs) with_descriptions indent_level
                            required_only # rs') = Inr out" for rs rs' out
    using that a by (auto simp: collect_append split: sum.splits)
  from a b c show ?thesis by blast
qed

text \<open>The theorem at a required, deprecated string attribute.\<close>

theorem deprecated_attribute_suppressed_witness:
  "py_truthy (dict_get legacy_attribute ''deprecated'' (JBool False))
   \<and> type_shape_ok (dict_get legacy_attribute ''type'' JNull) \<and> description_ok legacy_attribute
   \<and> format_attribute ''legacy'' (JObj legacy_attribute) True 1 False = Inr []
   \<and> collect ([Inr [''a'']] @ format_attribute ''legacy'' (JObj legacy_attribute) True 1 False
               # [Inr [''b'']]) = Inr [''a'', ''b'']
   \<and> collect ([Inr [''a'']] @ [Inr [''b'']]) = Inr [''a'', ''b'']"
proof -
  have a: "py_truthy (dict_get legacy_attribute ''deprecated'' (JBool False))"
    by code_simp
  have b: "type_shape_ok (dict_get legacy_attribute ''type'' JNull) \<and> description_ok legacy_attribute"
    by code_simp
  from deprecated_attribute_suppressed [OF a, of "''legacy''" True 1 False] b
  have c: "format_attribute ''legacy'' (JObj legacy_attribute) True 1 False = Inr []"
    by blast
  then have d: "collect ([Inr [''a'']] @ format_attribute ''legacy'' (JObj legacy_attribute) True 1 False
               # [Inr [''b'']]) = Inr [''a'', ''b'']"
    by simp
  from deprecated_attribute_suppressed [OF a, of "''legacy''" True 1 False] d
  have "collect ([Inr [''a'']] @ [Inr [''b'']]) = Inr [''a'', ''b'']"
    by blast
  with a b c d show ?thesis by blast
qed

subsection \<open>Unknown nesting modes\<close>

text \<open>
  C10. For a block-type descriptor whose nesting mode is none of single, list, set and
  map (its description, when present, a string; its nested block of dicts), the renderer
  raises nothing and returns the comment lines only, or nothing at all when
  \<open>required_only\<close> filters the block out. Each comment line starts with the indentation
  and \<^verbatim>\<open>#\<close>.
\<close>

theorem unknown_nesting_mode_comment_only:
  assumes "dict_get kvs ''nesting_mode'' (JStr ''single'')
             \<notin> {JStr ''single'', JStr ''list'', JStr ''set'', JStr ''map''}"
    and "description_ok kvs" and "members_shape_ok kvs"
  shows "\<exists>description.
           get_description kvs with_descriptions = Inr description
           \<and> format_block_type name (JObj kvs) with_descriptions indent_level required_only =
               Inr (if required_only \<and> py_eq_zero (dict_get kvs ''min_items'' (JInt 0)) then []
                    else block_comment_lines kvs description (py_repeat ''  '' indent_level))
           \<and> (\<forall>line \<in> set (block_comment_lines kvs description (py_repeat ''  '' indent_level)).
                 prefix (py_repeat ''  '' indent_level @ ''# '') line)"
proof -
  from get_description_ok [OF assms(2)] obtain d where d: "get_description kvs with_descriptions = Inr d"
    by blast
  from assms(3) obtain m where m: "sub_members kvs = Inr m"
    by (auto simp: members_shape_ok_iff)
  have "format_block_type name (JObj kvs) with_descriptions indent_level required_only =
               Inr (if required_only \<and> py_eq_zero (dict_get kvs ''min_items'' (JInt 0)) then []
                    else block_comment_lines kvs d (py_repeat ''  '' indent_level))"
    using d m assms(1) by (cases m) (simp add: format_block_type_obj render_mode_other)
  moreover have "\<forall>line \<in> set (block_comment_lines kvs d (py_repeat ''  '' indent_level)).
                 prefix (py_repeat ''  '' indent_level @ ''# '') line"
    by (auto simp: block_comment_lines_def desc_lines_def Let_def)
  ultimately show ?thesis using d by blast
qed

text \<open>The theorem at a described block-type with nesting mode \<open>group\<close>.\<close>

theorem unknown_nesting_mode_comment_only_witness:
  "dict_get group_schema ''nesting_mode'' (JStr ''single'')
     \<notin> {JStr ''single'', JStr ''list'', JStr ''set'', JStr ''map''}
   \<and> description_ok group_schema \<and> members_shape_ok group_schema
   \<and> get_description group_schema True = Inr (Some ''A group'')
   \<and> format_block_type ''group'' (JObj group_schema) True 1 False =
       Inr [''  # A group'', ''  # nesting: group, min: 1'']
   \<and> prefix ''  # '' ''  # A group'' \<and> prefix ''  # '' ''  # nesting: group, min: 1''"
proof -
  have a: "dict_get group_schema ''nesting_mode'' (JStr ''single'')
     \<notin> {JStr ''single'', JStr ''list'', JStr ''set'', JStr ''map''}"
    by code_simp
  have b: "description_ok group_schema" by code_simp
  have c: "members_shape_ok group_schema" by code_simp
  have d: "get_description group_schema True = Inr (Some ''A group'')" by code_simp
  have e: "block_comment_lines group_schema (Some ''A group'') (py_repeat ''  '' 1)
             = [''  # A group'', ''  # nesting: group, min: 1'']"
    by code_simp
  have f: "\<not> (False \<and> py_eq_zero (dict_get group_schema ''min_items'' (JInt 0)))" by simp
  from unknown_nesting_mode_comment_only [OF a b c, of True "''group''" 1 False] d
  have "format_block_type ''group'' (JObj group_schema) True 1 False =
          Inr (block_comment_lines group_schema (Some ''A group'') (py_repeat ''  '' 1))
        \<and> (\<forall>line \<in> set (block_comment_lines group_schema (Some ''A group'') (py_repeat ''  '' 1)).
         prefix (py_repeat ''  '' 1 @ ''# '') line)"
    by auto
  moreover have "py_repeat ''  '' 1 @ ''# '' = ''  # ''" by code_simp
  ultimately show ?thesis using a b c d e by simp
qed

subsection \<open>The order of the members\<close>

text \<open>
  C8. At the root and in every nested block the attributes are rendered before the
  block-types, each group in the order of \<open>sorted_items\<close>, which is strictly ascending in
  the names when the names of the dict are pairwise different. The root template is the
  header, the lines of the sorted attributes, the lines of the sorted block-types and the
  closing brace; a block-type that is not filtered out renders its nesting mode over the
  results of its sorted attributes followed by its sorted block-types. The order of the
  source plays no part: two block-type descriptors, and two entries, that differ only in
  the order of their dicts, at any depth, render to the same result.
\<close>

theorem members_in_ascending_order:
  "(distinct (map fst kvs) \<longrightarrow> sorted_wrt (<) (map fst (sorted_items kvs)))
   \<and> (\<forall>out. generate_hcl_template p name with_descriptions required_only indent_level = Inr out \<longrightarrow>
        (\<exists>b a t attr_lines bt_lines.
           get_schema_block p name = Inr (JObj b)
           \<and> dict_get b ''attributes'' (JObj []) = JObj a
           \<and> dict_get b ''block_types'' (JObj []) = JObj t
           \<and> collect (map (\<lambda>(n, s). format_attribute n s with_descriptions (indent_level + 1)
                                      required_only) (sorted_items a)) = Inr attr_lines
           \<and> collect (map (\<lambda>(n, s). format_block_type n s with_descriptions (indent_level + 1)
                                      required_only) (sorted_items t)) = Inr bt_lines
           \<and> out = py_join ''\<newline>''
                     (entry_header p name # attr_lines @ bt_lines
                      @ [py_repeat ''}'' (indent_level + 1)])))
   \<and> (\<forall>description sub_attributes sub_block_types.
         get_description descr with_descriptions = Inr description
         \<and> sub_members descr = Inr (sub_attributes, sub_block_types)
         \<and> \<not> (required_only \<and> py_eq_zero (dict_get descr ''min_items'' (JInt 0))) \<longrightarrow>
         (\<exists>b a t. dict_get descr ''block'' (JObj []) = JObj b
            \<and> dict_get b ''attributes'' (JObj []) = JObj a
            \<and> dict_get b ''block_types'' (JObj []) = JObj t
            \<and> sub_attributes = sorted_items a \<and> sub_block_types = sorted_items t)
         \<and> format_block_type bt_name (JObj descr) with_descriptions indent_level required_only =
             render_mode bt_name descr description indent_level
               (member_results with_descriptions required_only (indent_level + 1)
                  sub_attributes sub_block_types)
               (member_results with_descriptions required_only (indent_level + 2)
                  sub_attributes sub_block_types))
   \<and> (same_block_type s s' \<longrightarrow>
        format_block_type bt_name s with_descriptions indent_level required_only =
        format_block_type bt_name s' with_descriptions indent_level required_only)
   \<and> (same_block blk blk' \<and> get_schema_block p name = Inr blk
        \<and> get_schema_block p' name = Inr blk'
        \<and> (map_of (resources p) name = None \<longleftrightarrow> map_of (resources p') name = None) \<longrightarrow>
        generate_hcl_template p name with_descriptions required_only indent_level =
        generate_hcl_template p' name with_descriptions required_only indent_level)"
proof (intro conjI)
  show "distinct (map fst kvs) \<longrightarrow> sorted_wrt (<) (map fst (sorted_items kvs))"
    by (simp add: sorted_items_strict)
next
  show "\<forall>out. generate_hcl_template p name with_descriptions required_only indent_level = Inr out \<longrightarrow>
        (\<exists>b a t attr_lines bt_lines.
           get_schema_block p name = Inr (JObj b)
           \<and> dict_get b ''attributes'' (JObj []) = JObj a
           \<and> dict_get b ''block_types'' (JObj []) = JObj t
           \<and> collect (map (\<lambda>(n, s). format_attribute n s with_descriptions (indent_level + 1)
                                      required_only) (sorted_items a)) = Inr attr_lines
           \<and> collect (map (\<lambda>(n, s). format_block_type n s with_descriptions (indent_level + 1)
                                      required_only) (sorted_items t)) = Inr bt_lines
           \<and> out = py_join ''\<newline>''
                     (entry_header p name # attr_lines @ bt_lines
                      @ [py_repeat ''}'' (indent_level + 1)]))"
    using generate_Inr_members by blast
next
  show "\<forall>description sub_attributes sub_block_types.
         get_description descr with_descriptions = Inr description
         \<and> sub_members descr = Inr (sub_attributes, sub_block_types)
         \<and> \<not> (required_only \<and> py_eq_zero (dict_get descr ''min_items'' (JInt 0))) \<longrightarrow>
         (\<exists>b a t. dict_get descr ''block'' (JObj []) = JObj b
            \<and> dict_get b ''attributes'' (JObj []) = JObj a
            \<and> dict_get b ''block_types'' (JObj []) = JObj t
            \<and> sub_attributes = sorted_items a \<and> sub_block_types = sorted_items t)
         \<and> format_block_type bt_name (JObj descr) with_descriptions indent_level required_only =
             render_mode bt_name descr description indent_level
               (member_results with_descriptions required_only (indent_level + 1)
                  sub_attributes sub_block_types)
               (member_results with_descriptions required_only (indent_level + 2)
                  sub_attributes sub_block_types)"
    using sub_members_sorted by (simp add: format_block_type_obj)
next
  show "same_block_type s s' \<longrightarrow>
        format_block_type bt_name s with_descriptions indent_level required_only =
        format_block_type bt_name s' with_descriptions indent_level required_only"
    using same_schema_render(2) by blast
next
  show "same_block blk blk' \<and> get_schema_block p name = Inr blk
        \<and> get_schema_block p' name = Inr blk'
        \<and> (map_of (resources p) name = None \<longleftrightarrow> map_of (resources p') name = None) \<longrightarrow>
        generate_hcl_template p name with_descriptions required_only indent_level =
        generate_hcl_template p' name with_descriptions required_only indent_level"
    by (intro impI, elim conjE, rule same_block_generate)
qed

text \<open>
  The theorem at the provider \<open>ordered\<close>, whose dicts list \<open>zone\<close> before \<open>alpha\<close>,
  \<open>tail\<close> before \<open>head\<close> and, inside \<open>tail\<close>, \<open>y\<close> before \<open>x\<close>, and at the same
  provider listed in another order.
\<close>

theorem members_in_ascending_order_witness:
  "distinct (map fst [(''zone'', JObj [(''type'', JStr ''string'')]),
                      (''alpha'', JObj [(''type'', JStr ''string'')])])
   \<and> sorted_wrt (<) (map fst (sorted_items [(''zone'', JObj [(''type'', JStr ''string'')]),
                                            (''alpha'', JObj [(''type'', JStr ''string'')])]))
   \<and> generate_hcl_template ordered_parser ''ordered'' False False 0 = Inr ordered_template
   \<and> (\<exists>b a t attr_lines bt_lines.
         get_schema_block ordered_parser ''ordered'' = Inr (JObj b)
         \<and> dict_get b ''attributes'' (JObj []) = JObj a
         \<and> dict_get b ''block_types'' (JObj []) = JObj t
         \<and> collect (map (\<lambda>(n, s). format_attribute n s False (0 + 1) False) (sorted_items a))
             = Inr attr_lines
         \<and> collect (map (\<lambda>(n, s). format_block_type n s False (0 + 1) False) (sorted_items t))
             = Inr bt_lines
         \<and> ordered_template = py_join ''\<newline>''
             (entry_header ordered_parser ''ordered'' # attr_lines @ bt_lines
              @ [py_repeat ''}'' (0 + 1)]))
   \<and> get_description tail_schema False = Inr None
   \<and> sub_members tail_schema =
        Inr ([(''x'', JObj [(''type'', JStr ''number'')]), (''y'', JObj [(''type'', JStr ''bool'')])],
             [])
   \<and> format_block_type ''tail'' (JObj tail_schema) False 1 False =
        render_mode ''tail'' tail_schema None 1
          (member_results False False (1 + 1)
             [(''x'', JObj [(''type'', JStr ''number'')]), (''y'', JObj [(''type'', JStr ''bool'')])]
             [])
          (member_results False False (1 + 2)
             [(''x'', JObj [(''type'', JStr ''number'')]), (''y'', JObj [(''type'', JStr ''bool'')])]
             [])
   \<and> same_block_type (JObj tail_schema) (JObj tail_schema_shuffled)
   \<and> format_block_type ''tail'' (JObj tail_schema) False 1 False =
       format_block_type ''tail'' (JObj tail_schema_shuffled) False 1 False
   \<and> same_block (JObj ordered_block) (JObj ordered_block_shuffled)
   \<and> get_schema_block ordered_parser ''ordered'' = Inr (JObj ordered_block)
   \<and> get_schema_block ordered_parser_shuffled ''ordered'' = Inr (JObj ordered_block_shuffled)
   \<and> generate_hcl_template ordered_parser ''ordered'' False False 0 =
       generate_hcl_template ordered_parser_shuffled ''ordered'' False False 0"
proof -
  let ?attrs = "[(''zone'', JObj [(''type'', JStr ''string'')]),
                 (''alpha'', JObj [(''type'', JStr ''string'')])]"
  let ?xy = "[(''x'', JObj [(''type'', JStr ''number'')]), (''y'', JObj [(''type'', JStr ''bool'')])]"
  let ?yx = "[(''y'', JObj [(''type'', JStr ''bool'')]), (''x'', JObj [(''type'', JStr ''number'')])]"
  note inst = members_in_ascending_order [of ?attrs ordered_parser "''ordered''" False False 0
      tail_schema "''tail''"]
  have d: "distinct (map fst ?attrs)" by simp
  have g: "generate_hcl_template ordered_parser ''ordered'' False False 0 = Inr ordered_template"
    by code_simp
  have td: "get_description tail_schema False = Inr None" by code_simp
  have tm: "sub_members tail_schema = Inr (?xy, [])" by code_simp
  have empty: "same_block (JObj []) (JObj [])"
    by (rule same_blockI [where a = "[]" and a' = "[]" and t = "[]" and t' = "[]"])
      (simp_all add: dict_get_def)
  have head: "same_block_type (JObj head_schema) (JObj head_schema)"
    by (rule same_block_typeI) (simp_all add: head_schema_def dict_get_def empty)
  have tb: "same_block (JObj tail_block) (JObj tail_block_shuffled)"
    by (rule same_blockI [where a = ?yx and a' = ?xy and t = "[]" and t' = "[]"])
      (auto simp: tail_block_def tail_block_shuffled_def dict_get_def)
  have tail: "same_block_type (JObj tail_schema) (JObj tail_schema_shuffled)"
    by (rule same_block_typeI)
      (simp_all add: tail_schema_def tail_schema_shuffled_def dict_get_def tb)
  have ob: "same_block (JObj ordered_block) (JObj ordered_block_shuffled)"
    by (rule same_blockI [where a = ?attrs
          and a' = "[(''alpha'', JObj [(''type'', JStr ''string'')]),
                     (''zone'', JObj [(''type'', JStr ''string'')])]"
          and t = "[(''tail'', JObj tail_schema), (''head'', JObj head_schema)]"
          and t' = "[(''head'', JObj head_schema), (''tail'', JObj tail_schema_shuffled)]"])
      (auto simp: ordered_block_def ordered_block_shuffled_def dict_get_def head tail)
  have gb: "get_schema_block ordered_parser ''ordered'' = Inr (JObj ordered_block)"
    by (simp add: get_schema_block_def ordered_parser_def entry_block_def dict_get_def)
  have gb': "get_schema_block ordered_parser_shuffled ''ordered'' = Inr (JObj ordered_block_shuffled)"
    by (simp add: get_schema_block_def ordered_parser_shuffled_def entry_block_def dict_get_def)
  have res: "map_of (resources ordered_parser) ''ordered'' = None
     \<longleftrightarrow> map_of (resources ordered_parser_shuffled) ''ordered'' = None"
    by (simp add: ordered_parser_def ordered_parser_shuffled_def)
  from inst d have w1: "sorted_wrt (<) (map fst (sorted_items ?attrs))" by blast
  from inst g have w2: "\<exists>b a t attr_lines bt_lines.
         get_schema_block ordered_parser ''ordered'' = Inr (JObj b)
         \<and> dict_get b ''attributes'' (JObj []) = JObj a
         \<and> dict_get b ''block_types'' (JObj []) = JObj t
         \<and> collect (map (\<lambda>(n, s). format_attribute n s False (0 + 1) False) (sorted_items a))
             = Inr attr_lines
         \<and> collect (map (\<lambda>(n, s). format_block_type n s False (0 + 1) False) (sorted_items t))
             = Inr bt_lines
         \<and> ordered_template = py_join ''\<newline>''
             (entry_header ordered_parser ''ordered'' # attr_lines @ bt_lines
              @ [py_repeat ''}'' (0 + 1)])"
    by blast
  note inst1 = members_in_ascending_order [of ?attrs ordered_parser "''ordered''" False False 1
      tail_schema "''tail''" "JObj tail_schema" "JObj tail_schema_shuffled"]
  from inst1 td tm have w3: "format_block_type ''tail'' (JObj tail_schema) False 1 False =
        render_mode ''tail'' tail_schema None 1
          (member_results False False (1 + 1) ?xy [])
          (member_results False False (1 + 2) ?xy [])"
    by blast
  from inst1 tail have w4: "format_block_type ''tail'' (JObj tail_schema) False 1 False =
       format_block_type ''tail'' (JObj tail_schema_shuffled) False 1 False"
    by blast
  from members_in_ascending_order [of ?attrs ordered_parser "''ordered''" False False 0
      tail_schema "''tail''" "JObj tail_schema" "JObj tail_schema_shuffled"
      "JObj ordered_block" "JObj ordered_block_shuffled" ordered_parser_shuffled] ob gb gb' res
  have w5: "generate_hcl_template ordered_parser ''ordered'' False False 0 =
       generate_hcl_template ordered_parser_shuffled ''ordered'' False False 0"
    by blast
  from d w1 g w2 td tm w3 tail w4 ob gb gb' w5 show ?thesis by blast
qed

end
